theory Spec2Isabelle
  imports Complex_Main
begin

section \<open>Python values used by the worker\<close>

text \<open>
  A Python \<open>str\<close> is a sequence of Unicode code points, a \<open>bytes\<close> object a sequence
  of bytes. String literals of the source are ASCII and are written as HOL strings.
\<close>

type_synonym pystr = "nat list"
type_synonym bytes = "char list"

definition str :: "string \<Rightarrow> pystr" where
  "str s = map of_char s"

subsection \<open>\<open>bytes.decode("utf-8")\<close>\<close>

text \<open>
  The strict decoder accepts exactly the well-formed sequences: a lead byte fixes the
  number of continuation bytes, and overlong forms, surrogates and code points above
  \<open>0x10FFFF\<close> are rejected. \<open>utf8_seq\<close> gives, for a lead byte, the number of
  continuation bytes, the payload of the lead byte and the range of code points the
  sequence may encode.
\<close>

definition utf8_seq :: "nat \<Rightarrow> (nat \<times> nat \<times> nat \<times> nat) option" where
  "utf8_seq b =
     (if b < 0x80 then Some (0, b, 0, 0x7F)
      else if 0xC2 \<le> b \<and> b \<le> 0xDF then Some (1, b - 0xC0, 0x80, 0x7FF)
      else if 0xE0 \<le> b \<and> b \<le> 0xEF then Some (2, b - 0xE0, 0x800, 0xFFFF)
      else if 0xF0 \<le> b \<and> b \<le> 0xF4 then Some (3, b - 0xF0, 0x10000, 0x10FFFF)
      else None)"

definition continuation :: "nat \<Rightarrow> bool" where
  "continuation c \<longleftrightarrow> 0x80 \<le> c \<and> c \<le> 0xBF"

fun utf8_points :: "nat list \<Rightarrow> pystr option" where
  "utf8_points [] = Some []"
| "utf8_points (b # bs) =
     (case utf8_seq b of
        None \<Rightarrow> None
      | Some (k, v, lo, hi) \<Rightarrow>
          (let cs = take k bs;
               cp = foldl (\<lambda>a c. a * 64 + (c - 0x80)) v cs
           in if length cs = k \<and> list_all continuation cs \<and> lo \<le> cp \<and> cp \<le> hi
                 \<and> \<not> (0xD800 \<le> cp \<and> cp \<le> 0xDFFF)
              then map_option ((#) cp) (utf8_points (drop k bs))
              else None))"

definition decode_utf8 :: "bytes \<Rightarrow> pystr option" where
  "decode_utf8 bs = utf8_points (map of_char bs)"

subsection \<open>\<open>str.strip\<close>, \<open>str.split\<close>, \<open>str.startswith\<close>\<close>

text \<open>The code points for which \<open>str.isspace\<close> holds; \<open>strip()\<close> removes them at both ends.\<close>

definition isspace :: "nat \<Rightarrow> bool" where
  "isspace c \<longleftrightarrow>
     (9 \<le> c \<and> c \<le> 13) \<or> (0x1C \<le> c \<and> c \<le> 0x20) \<or> c = 0x85 \<or> c = 0xA0 \<or> c = 0x1680
     \<or> (0x2000 \<le> c \<and> c \<le> 0x200A) \<or> c = 0x2028 \<or> c = 0x2029 \<or> c = 0x202F
     \<or> c = 0x205F \<or> c = 0x3000"

definition strip :: "pystr \<Rightarrow> pystr" where
  "strip s = rev (dropWhile isspace (rev (dropWhile isspace s)))"

text \<open>
  \<open>s.split(sep)\<close> for a separator of one character: every occurrence separates, so
  adjacent separators give empty strings and the empty string gives one empty string.
\<close>

fun split_on :: "nat \<Rightarrow> pystr \<Rightarrow> pystr list" where
  "split_on sep [] = [[]]"
| "split_on sep (c # cs) =
     (if c = sep then [] # split_on sep cs
      else (case split_on sep cs of w # ws \<Rightarrow> (c # w) # ws | [] \<Rightarrow> [[c]]))"

definition startswith :: "pystr \<Rightarrow> pystr \<Rightarrow> bool" where
  "startswith s p \<longleftrightarrow> take (length p) s = p"

subsection \<open>\<open>float\<close>\<close>

text \<open>
  A Python \<open>float\<close> is an IEEE 754 binary64 value: a finite number (a rational here,
  \<open>Finite 0\<close> being \<open>0.0\<close>), the negative zero, an infinity or a NaN.
\<close>

datatype pyfloat = Finite rat | NegZero | PosInf | NegInf | NaN

function bit_length :: "int \<Rightarrow> int" where
  "bit_length n = (if n \<le> 0 then 0 else 1 + bit_length (n div 2))"
  by pat_completeness auto
termination
  by (relation "measure nat") auto

declare bit_length.simps [simp del]

definition pow2 :: "int \<Rightarrow> rat" where
  "pow2 k = (if 0 \<le> k then 2 ^ nat k else 1 / 2 ^ nat (- k))"

text \<open>For \<open>x > 0\<close>, the exponent \<open>e\<close> with \<open>2^e \<le> x < 2^(e+1)\<close>.\<close>

definition floor_log2 :: "rat \<Rightarrow> int" where
  "floor_log2 x =
     (let (a, b) = quotient_of x;
          k = bit_length a - bit_length b
      in if pow2 k \<le> x then k else k - 1)"

definition round_half_even :: "rat \<Rightarrow> int" where
  "round_half_even x =
     (let f = \<lfloor>x\<rfloor>; d = x - of_int f
      in if d < 1 / 2 then f else if 1 / 2 < d then f + 1 else if even f then f else f + 1)"

text \<open>
  Rounding of a positive rational to the nearest binary64 number, ties to even: 53
  significant bits, and the spacing \<open>2^-1074\<close> in the subnormal range. A result of
  \<open>2^1024\<close> or more is an overflow.
\<close>

definition round_binary64 :: "rat \<Rightarrow> rat" where
  "round_binary64 x =
     (let q = max (floor_log2 x - 52) (- 1074)
      in of_int (round_half_even (x / pow2 q)) * pow2 q)"

definition double_of_rat :: "rat \<Rightarrow> pyfloat" where
  "double_of_rat x =
     (if x = 0 then Finite 0
      else (let r = round_binary64 \<bar>x\<bar>
            in if pow2 1024 \<le> r then (if x < 0 then NegInf else PosInf)
               else if r = 0 then (if x < 0 then NegZero else Finite 0)
               else Finite (if x < 0 then - r else r)))"

text \<open>\<open>1.0 / x\<close>: Python raises on a zero divisor; every other quotient is the IEEE one.\<close>

fun float_recip :: "pyfloat \<Rightarrow> string + pyfloat" where
  "float_recip (Finite r) =
     (if r = 0 then Inl ''ZeroDivisionError'' else Inr (double_of_rat (1 / r)))"
| "float_recip NegZero = Inl ''ZeroDivisionError''"
| "float_recip PosInf = Inr (Finite 0)"
| "float_recip NegInf = Inr NegZero"
| "float_recip NaN = Inr NaN"

text \<open>\<open>a == b\<close> on floats: a NaN equals nothing, the two zeros are equal.\<close>

fun float_eq :: "pyfloat \<Rightarrow> pyfloat \<Rightarrow> bool" where
  "float_eq NaN b = False"
| "float_eq a NaN = False"
| "float_eq NegZero b = (b = NegZero \<or> b = Finite 0)"
| "float_eq a NegZero = (a = Finite 0)"
| "float_eq a b = (a = b)"

text \<open>\<open>int(x)\<close> on a float truncates towards zero and raises on an infinity or a NaN.\<close>

fun int_of_float :: "pyfloat \<Rightarrow> string + int" where
  "int_of_float (Finite r) = Inr (if 0 \<le> r then \<lfloor>r\<rfloor> else \<lceil>r\<rceil>)"
| "int_of_float NegZero = Inr 0"
| "int_of_float PosInf = Inl ''OverflowError''"
| "int_of_float NegInf = Inl ''OverflowError''"
| "int_of_float NaN = Inl ''ValueError''"

section \<open>Failures\<close>

text \<open>
  The message of a \<open>TaskFailure\<close> is an f-string or a decoded text; it is kept as its
  parts, so that the interpolated values stay visible. Every other exception is
  \<open>Raised\<close> with the name of its class: the worker catches nothing, so all that matters
  of such an exception is that it is not a \<open>TaskFailure\<close>.
\<close>

datatype fpart = Lit string | Txt pystr | Fmt_int int | Fmt_None | Fmt_float pyfloat

datatype exn = TaskFailure "fpart list" | Raised string

definition raised :: "string + 'a \<Rightarrow> exn + 'a" where
  "raised r = (case r of Inl e \<Rightarrow> Inl (Raised e) | Inr x \<Rightarrow> Inr x)"

definition and_then :: "exn + 'a \<Rightarrow> ('a \<Rightarrow> exn + 'b) \<Rightarrow> exn + 'b" where
  "and_then r f = (case r of Inl e \<Rightarrow> Inl e | Inr x \<Rightarrow> f x)"

section \<open>What the worker calls but does not define\<close>

text \<open>
  The conversions \<open>int(s)\<close> and \<open>float(s)\<close> of a string and the reader \<open>Bvh\<close> of the
  package \<open>bvh\<close> are not code of the worker. They are parameters of the model: each maps
  its argument to a value or to the class name of the exception it raises. The
  properties \<open>nframes\<close> and \<open>frame_time\<close> of the object that \<open>Bvh\<close> returns are
  computed, and may raise, when they are read.
\<close>

record mocap =
  nframes :: "string + int"
  frame_time :: "string + pyfloat"

record runtime =
  py_int :: "pystr \<Rightarrow> string + int"
  py_float :: "pystr \<Rightarrow> string + pyfloat"
  Bvh :: "pystr \<Rightarrow> string + mocap"

text \<open>\<open>os.environ[k]\<close> raises \<open>KeyError\<close> for a variable that is not set.\<close>

definition environ_get :: "(string \<rightharpoonup> pystr) \<Rightarrow> string \<Rightarrow> exn + pystr" where
  "environ_get environ k =
     (case environ k of None \<Rightarrow> Inl (Raised ''KeyError'') | Some v \<Rightarrow> Inr v)"

section \<open>\<open>validate_bvh_file\<close>\<close>

text \<open>
  The loop over the lines of the file: the counter is \<open>None\<close> until a line that is
  \<open>MOTION\<close> after stripping sets it to \<open>-2\<close>; once it is set, every line that is not
  blank adds one, the test coming before the reset.
\<close>

fun count_rows :: "int option \<Rightarrow> pystr list \<Rightarrow> int option" where
  "count_rows counter [] = counter"
| "count_rows counter (line # lines) =
     (let counter1 = (case counter of
                        Some c \<Rightarrow> if strip line \<noteq> [] then Some (c + 1) else counter
                      | None \<Rightarrow> counter);
          counter2 = (if strip line = str ''MOTION'' then Some (- 2) else counter1)
      in count_rows counter2 lines)"

text \<open>
  The recount in the words of the specification: the number of lines that are not blank
  after the \<open>MOTION\<close> line (the last one, should there be several), less the two header
  lines; undefined when no line is \<open>MOTION\<close>.
\<close>

fun after_motion :: "pystr list \<Rightarrow> pystr list option" where
  "after_motion [] = None"
| "after_motion (l # ls) =
     (case after_motion ls of
        Some r \<Rightarrow> Some r
      | None \<Rightarrow> if strip l = str ''MOTION'' then Some ls else None)"

definition recounted :: "pystr list \<Rightarrow> int option" where
  "recounted ls =
     map_option (\<lambda>r. int (length (filter (\<lambda>l. strip l \<noteq> []) r)) - 2) (after_motion ls)"

definition fmt_counter :: "int option \<Rightarrow> fpart" where
  "fmt_counter counter = (case counter of None \<Rightarrow> Fmt_None | Some c \<Rightarrow> Fmt_int c)"

definition rows_mismatch :: "int option \<Rightarrow> int \<Rightarrow> fpart list" where
  "rows_mismatch counter n =
     [Lit ''The number of rows with motion data ('', fmt_counter counter,
      Lit '') does not match the Frames field ('', Fmt_int n, Lit '')'']"

definition too_many_frames :: "int \<Rightarrow> int \<Rightarrow> fpart list" where
  "too_many_frames n limit =
     [Lit ''The supplied number of frames ('', Fmt_int n, Lit '') is bigger than '',
      Fmt_int limit]"

definition frame_time_differs :: "pyfloat \<Rightarrow> pyfloat \<Rightarrow> fpart list" where
  "frame_time_differs t required =
     [Lit ''The supplied frame time ('', Fmt_float t,
      Lit '') differs from the required '', Fmt_float required]"

text \<open>The two limits, read from the environment at every call (the first two lines).\<close>

definition load_limits :: "runtime \<Rightarrow> (string \<rightharpoonup> pystr) \<Rightarrow> exn + int \<times> pyfloat" where
  "load_limits rt environ =
     and_then (environ_get environ ''MAX_NUMBER_FRAMES'') (\<lambda>s.
     and_then (raised (py_int rt s)) (\<lambda>MAX_NUMBER_FRAMES.
     and_then (environ_get environ ''RENDER_FPS'') (\<lambda>s'.
     and_then (raised (py_float rt s')) (\<lambda>fps.
     and_then (raised (float_recip fps)) (\<lambda>FRAME_TIME.
     Inr (MAX_NUMBER_FRAMES, FRAME_TIME))))))"

definition decode :: "bytes \<Rightarrow> exn + pystr" where
  "decode bs =
     (case decode_utf8 bs of None \<Rightarrow> Inl (Raised ''UnicodeDecodeError'') | Some s \<Rightarrow> Inr s)"

definition validate_bvh_file ::
  "runtime \<Rightarrow> (string \<rightharpoonup> pystr) \<Rightarrow> bytes \<Rightarrow> exn + unit" where
  "validate_bvh_file rt environ bvh_file =
     and_then (load_limits rt environ) (\<lambda>(MAX_NUMBER_FRAMES, FRAME_TIME).
     and_then (decode bvh_file) (\<lambda>file_content.
     and_then (raised (Bvh rt file_content)) (\<lambda>mocap.
       let counter = count_rows None (split_on 10 file_content)
       in and_then (raised (nframes mocap)) (\<lambda>n.
            if Some n \<noteq> counter then Inl (TaskFailure (rows_mismatch counter n))
            else if MAX_NUMBER_FRAMES \<noteq> - 1 \<and> n > MAX_NUMBER_FRAMES
              then Inl (TaskFailure (too_many_frames n MAX_NUMBER_FRAMES))
            else and_then (raised (frame_time mocap)) (\<lambda>t.
              if \<not> float_eq t FRAME_TIME
                then Inl (TaskFailure (frame_time_differs t FRAME_TIME))
              else Inr ())))))"

section \<open>The task \<open>render\<close>\<close>

subsection \<open>The world outside the task\<close>

text \<open>
  What the task does to the outside is recorded as a trace of events, in the order of the
  calls; what the outside answers is a parameter. A call that can raise answers with the
  class name of its exception.
\<close>

type_synonym headers = "(string \<times> pystr) list"

datatype event =
    Update_state string "(int \<times> int) option"
  | Http_get pystr headers
  | Temp_file pystr bytes
  | Spawn "pystr list"
  | Open_file pystr
  | Http_post pystr string pystr headers

text \<open>
  The child process: the lines that iterating over its \<open>stdout\<close> yields, the content of
  its \<open>stderr\<close>, and the status it exits with.
\<close>

record child =
  stdout_lines :: "bytes list"
  stderr_content :: bytes
  exit_status :: int

text \<open>
  The \<open>Popen\<close> object. Its attribute \<open>returncode\<close> is \<open>None\<close> when the object is
  created; \<open>poll\<close>, \<open>wait\<close> and \<open>communicate\<close> are what assigns the exit status to
  it. Reading the pipes does not.
\<close>

record popen =
  proc :: child
  returncode :: "int option"

definition wait :: "popen \<Rightarrow> popen" where
  "wait p = p\<lparr>returncode := Some (exit_status (proc p))\<rparr>"

record world =
  http_get :: "pystr \<Rightarrow> headers \<Rightarrow> string + bytes"
  temp_file :: "string + pystr"
  spawn :: "pystr list \<Rightarrow> string + child"
  open_rb :: "pystr \<Rightarrow> string + bytes"
  http_post :: "pystr \<Rightarrow> string \<times> pystr \<times> bytes \<Rightarrow> headers \<Rightarrow> string + pystr"

definition Popen :: "world \<Rightarrow> pystr list \<Rightarrow> string + popen" where
  "Popen w args =
     (case spawn w args of
        Inl e \<Rightarrow> Inl e
      | Inr c \<Rightarrow> Inr \<lparr>proc = c, returncode = None\<rparr>)"

text \<open>A step of the task: the events it adds to the trace, and its result or exception.\<close>

type_synonym 'a step = "event list \<times> (exn + 'a)"

definition pure :: "exn + 'a \<Rightarrow> 'a step" where
  "pure r = ([], r)"

definition call :: "event \<Rightarrow> exn + 'a \<Rightarrow> 'a step" where
  "call ev r = ([ev], r)"

definition next_step :: "'a step \<Rightarrow> ('a \<Rightarrow> 'b step) \<Rightarrow> 'b step" where
  "next_step m f =
     (case m of
        (evs, Inl e) \<Rightarrow> (evs, Inl e)
      | (evs, Inr x) \<Rightarrow> (case f x of (evs', r) \<Rightarrow> (evs @ evs', r)))"

subsection \<open>One line of the renderer's output\<close>

text \<open>
  What the body of the loop decides for a decoded and stripped line: the new values of
  \<open>total\<close> (here \<open>tot\<close>) and \<open>current_frame\<close>, or the name of the output file, or an
  exception.
  Unpacking \<open>line.split(" ")\<close> into two names raises \<open>ValueError\<close> unless there are
  exactly two parts; the starred unpacking takes the last part, and a split is never
  empty.
\<close>

datatype line_action = Progress "int option" "int option" | Output_file pystr

definition handle_line ::
  "runtime \<Rightarrow> int option \<Rightarrow> int option \<Rightarrow> pystr \<Rightarrow> exn + line_action" where
  "handle_line rt tot current_frame line =
     (if startswith line (str ''total_frames '') then
        (case split_on 32 line of
           [_, tok] \<Rightarrow>
             and_then (raised (py_float rt tok)) (\<lambda>f.
             and_then (raised (int_of_float f)) (\<lambda>t.
             Inr (Progress (Some t) current_frame)))
         | _ \<Rightarrow> Inl (Raised ''ValueError''))
      else if startswith line (str ''Append frame '') then
        and_then (raised (py_int rt (last (split_on 32 line)))) (\<lambda>c.
        Inr (Progress tot (Some c)))
      else if startswith line (str ''output_file'') then
        (case split_on 32 line of
           [_, file_name] \<Rightarrow> Inr (Output_file file_name)
         | _ \<Rightarrow> Inl (Raised ''ValueError''))
      else Inr (Progress tot current_frame))"

text \<open>\<open>if total and current_frame\<close>: \<open>None\<close> and \<open>0\<close> are false.\<close>

definition progress_update :: "int option \<Rightarrow> int option \<Rightarrow> event list" where
  "progress_update tot current_frame =
     (case (tot, current_frame) of
        (Some t, Some c) \<Rightarrow>
          if t \<noteq> 0 \<and> c \<noteq> 0 then [Update_state ''RENDERING'' (Some (c, t))] else []
      | _ \<Rightarrow> [])"

definition basename :: "pystr \<Rightarrow> pystr" where
  "basename path = last (split_on 47 path)"

definition upload :: "world \<Rightarrow> pystr \<Rightarrow> headers \<Rightarrow> pystr \<Rightarrow> pystr step" where
  "upload w API_SERVER HEADERS file_name =
     next_step (call (Open_file file_name) (raised (open_rb w file_name))) (\<lambda>f.
     call (Http_post (API_SERVER @ str ''/upload_video'') ''file'' (basename file_name) HEADERS)
       (raised (http_post w (API_SERVER @ str ''/upload_video'')
                  (''file'', basename file_name, f) HEADERS)))"

subsection \<open>The loop over the output and the task\<close>

text \<open>The loop either returns from the task with the response of the upload, or ends.\<close>

datatype loop_exit = Return pystr | Exhausted

fun read_stdout ::
  "runtime \<Rightarrow> world \<Rightarrow> pystr \<Rightarrow> headers \<Rightarrow> int option \<Rightarrow> int option \<Rightarrow> bytes list
     \<Rightarrow> loop_exit step" where
  "read_stdout rt w API_SERVER HEADERS tot current_frame [] = pure (Inr Exhausted)"
| "read_stdout rt w API_SERVER HEADERS tot current_frame (raw # rest) =
     next_step (pure (decode raw)) (\<lambda>line.
     next_step (pure (handle_line rt tot current_frame (strip line))) (\<lambda>action.
       case action of
         Output_file file_name \<Rightarrow>
           next_step (upload w API_SERVER HEADERS file_name) (\<lambda>body. pure (Inr (Return body)))
       | Progress tot' current_frame' \<Rightarrow>
           next_step (progress_update tot' current_frame', Inr ()) (\<lambda>_.
           read_stdout rt w API_SERVER HEADERS tot' current_frame' rest)))"

definition blender_args :: "pystr \<Rightarrow> pystr list" where
  "blender_args name =
     [str ''/blender/blender-2.83.0-linux64/blender'', str ''-noaudio'', str ''-b'',
      str ''--python'', str ''blender_render.py'', str ''--'', name]"

text \<open>The first lines of the task: the header, the server, the state, the download.\<close>

definition fetch ::
  "(string \<rightharpoonup> pystr) \<Rightarrow> world \<Rightarrow> pystr \<Rightarrow> (headers \<times> pystr \<times> bytes) step" where
  "fetch environ w bvh_file_uri =
     next_step (pure (environ_get environ ''SYSTEM_TOKEN'')) (\<lambda>token.
     let HEADERS = [(''Authorization'', str ''Bearer '' @ token)] in
     next_step (pure (environ_get environ ''API_SERVER'')) (\<lambda>API_SERVER.
     next_step (call (Update_state ''PROCESSING'' None) (Inr ())) (\<lambda>_.
     next_step (call (Http_get (API_SERVER @ bvh_file_uri) HEADERS)
                  (raised (http_get w (API_SERVER @ bvh_file_uri) HEADERS))) (\<lambda>bvh_file.
     pure (Inr (HEADERS, API_SERVER, bvh_file))))))"

text \<open>
  After the loop has ended without a return, \<open>process.returncode != 0\<close> is tested on the
  attribute as it is: the task has called nothing that assigns it. Falling off the end
  of the function returns \<open>None\<close>.
\<close>

definition after_loop :: "popen \<Rightarrow> exn + pystr option" where
  "after_loop process =
     (if returncode process \<noteq> Some 0
      then and_then (decode (stderr_content (proc process))) (\<lambda>msg.
           Inl (TaskFailure [Txt msg]))
      else Inr None)"

text \<open>From the download to the start of the renderer.\<close>

definition start_renderer ::
  "runtime \<Rightarrow> (string \<rightharpoonup> pystr) \<Rightarrow> world \<Rightarrow> pystr \<Rightarrow> (headers \<times> pystr \<times> popen) step" where
  "start_renderer rt environ w bvh_file_uri =
     next_step (fetch environ w bvh_file_uri) (\<lambda>(HEADERS, API_SERVER, bvh_file).
     next_step (pure (validate_bvh_file rt environ bvh_file)) (\<lambda>_.
     next_step (pure (raised (temp_file w))) (\<lambda>name.
     next_step (call (Temp_file name bvh_file) (Inr ())) (\<lambda>_.
     next_step (call (Spawn (blender_args name)) (raised (Popen w (blender_args name))))
       (\<lambda>process.
     pure (Inr (HEADERS, API_SERVER, process)))))))"

definition render ::
  "runtime \<Rightarrow> (string \<rightharpoonup> pystr) \<Rightarrow> world \<Rightarrow> pystr \<Rightarrow> pystr option step" where
  "render rt environ w bvh_file_uri =
     next_step (start_renderer rt environ w bvh_file_uri) (\<lambda>(HEADERS, API_SERVER, process).
     next_step (read_stdout rt w API_SERVER HEADERS None None (stdout_lines (proc process)))
       (\<lambda>exit.
       case exit of
         Return body \<Rightarrow> pure (Inr (Some body))
       | Exhausted \<Rightarrow> pure (after_loop process)))"

subsection \<open>The progress of a run, in the words of the specification\<close>

text \<open>
  What a line of the output is to the protocol of the renderer. After decoding and
  trimming, \<open>total_frames N\<close> sets the total to \<open>N\<close>, read as a real number and
  truncated; \<open>Append frame ... N\<close> sets the current frame to the integer after the last
  space; any other line that does not begin with \<open>output_file\<close> is not recognised and
  changes nothing. The loop stops at a line that names the output file, at a line whose
  payload cannot be read (for \<open>total_frames\<close>, also one with a further space after the
  number), and at a line that does not decode.
\<close>

datatype shape = Sets_total int | Sets_current int | Unrecognised | Stops

definition shape_of :: "runtime \<Rightarrow> bytes \<Rightarrow> shape" where
  "shape_of rt raw =
     (case decode_utf8 raw of
        None \<Rightarrow> Stops
      | Some l \<Rightarrow>
          (let s = strip l in
           if startswith s (str ''total_frames '') then
             (let n = drop 13 s in
              if 32 \<in> set n then Stops
              else (case py_float rt n of
                      Inl _ \<Rightarrow> Stops
                    | Inr f \<Rightarrow> (case int_of_float f of Inl _ \<Rightarrow> Stops | Inr t \<Rightarrow> Sets_total t)))
           else if startswith s (str ''Append frame '') then
             (case py_int rt (rev (takeWhile (\<lambda>c. c \<noteq> 32) (rev s))) of
                Inl _ \<Rightarrow> Stops
              | Inr c \<Rightarrow> Sets_current c)
           else if startswith s (str ''output_file'') then Stops
           else Unrecognised))"

text \<open>The lines that the loop completes: those before the first at which it stops.\<close>

definition processed :: "runtime \<Rightarrow> bytes list \<Rightarrow> shape list" where
  "processed rt ls = takeWhile (\<lambda>sh. sh \<noteq> Stops) (map (shape_of rt) ls)"

text \<open>The most recently parsed total and current frame among given lines, if any.\<close>

definition latest_total :: "shape list \<Rightarrow> int option" where
  "latest_total shs =
     foldl (\<lambda>acc sh. case sh of Sets_total t \<Rightarrow> Some t | _ \<Rightarrow> acc) None shs"

definition latest_current :: "shape list \<Rightarrow> int option" where
  "latest_current shs =
     foldl (\<lambda>acc sh. case sh of Sets_current c \<Rightarrow> Some c | _ \<Rightarrow> acc) None shs"

text \<open>
  The updates that lines of given shapes call for, from given values of the total and
  the current frame: the recursive form of the statement about \<open>render\<close> below.
\<close>

fun expected :: "int option \<Rightarrow> int option \<Rightarrow> shape list \<Rightarrow> event list" where
  "expected tot cur [] = []"
| "expected tot cur (sh # rest) =
     (let tot' = (case sh of Sets_total t \<Rightarrow> Some t | _ \<Rightarrow> tot);
          cur' = (case sh of Sets_current c \<Rightarrow> Some c | _ \<Rightarrow> cur)
      in (case (tot', cur') of
            (Some t, Some c) \<Rightarrow>
              if t \<noteq> 0 \<and> c \<noteq> 0 then [Update_state ''RENDERING'' (Some (c, t))] else []
          | _ \<Rightarrow> [])
         @ expected tot' cur' rest)"

fun is_rendering :: "event \<Rightarrow> bool" where
  "is_rendering (Update_state s m) = (s = ''RENDERING'')"
| "is_rendering _ = False"

fun is_spawn :: "event \<Rightarrow> bool" where
  "is_spawn (Spawn args) = True"
| "is_spawn _ = False"

text \<open>
  A line with a recognised prefix and a malformed payload, and the exception that the
  malformation is: a \<open>total_frames\<close> line that is not two parts or whose second part
  \<open>float\<close> rejects, an \<open>Append frame\<close> line whose last part \<open>int\<close> rejects, an
  \<open>output_file\<close> line that is not two parts.
\<close>

definition payload_error :: "runtime \<Rightarrow> pystr \<Rightarrow> string option" where
  "payload_error rt line =
     (let parts = split_on 32 line
      in if startswith line (str ''total_frames '') then
           (if length parts \<noteq> 2 then Some ''ValueError''
            else (case py_float rt (parts ! 1) of Inl e \<Rightarrow> Some e | Inr _ \<Rightarrow> None))
         else if startswith line (str ''Append frame '') then
           (case py_int rt (last parts) of Inl e \<Rightarrow> Some e | Inr _ \<Rightarrow> None)
         else if startswith line (str ''output_file'') then
           (if length parts \<noteq> 2 then Some ''ValueError'' else None)
         else None)"

section \<open>A runtime and files for the examples\<close>

text \<open>
  The theorems below hold for every runtime. The examples need one: \<open>dec_int\<close> and
  \<open>dec_float\<close> convert a plain decimal literal (an optional sign, ASCII digits, for
  \<open>dec_float\<close> an optional fraction) as \<open>int\<close> and \<open>float\<close> do, the float being the
  binary64 number nearest to the literal. The other spellings that Python accepts are
  not needed in the examples and are \<open>ValueError\<close> here.
\<close>

definition digits_value :: "pystr \<Rightarrow> nat option" where
  "digits_value ds =
     (if ds \<noteq> [] \<and> list_all (\<lambda>c. 48 \<le> c \<and> c \<le> 57) ds
      then Some (foldl (\<lambda>a c. 10 * a + (c - 48)) 0 ds) else None)"

definition unsigned :: "pystr \<Rightarrow> bool \<times> pystr" where
  "unsigned s =
     (case s of
        c # cs \<Rightarrow> if c = 45 then (True, cs) else if c = 43 then (False, cs) else (False, s)
      | [] \<Rightarrow> (False, s))"

definition dec_int :: "pystr \<Rightarrow> string + int" where
  "dec_int s =
     (case unsigned s of (neg, ds) \<Rightarrow>
        (case digits_value ds of
           None \<Rightarrow> Inl ''ValueError''
         | Some n \<Rightarrow> Inr (if neg then - int n else int n)))"

definition dec_float :: "pystr \<Rightarrow> string + pyfloat" where
  "dec_float s =
     (case unsigned s of (neg, ds) \<Rightarrow>
        (case split_on 46 ds of
           [a] \<Rightarrow>
             (case digits_value a of
                None \<Rightarrow> Inl ''ValueError''
              | Some n \<Rightarrow>
                  Inr (if neg \<and> n = 0 then NegZero
                       else double_of_rat (if neg then - of_nat n else of_nat n)))
         | [a, b] \<Rightarrow>
             (case (digits_value a, digits_value (a @ b), digits_value b) of
                (Some _, Some n, Some _) \<Rightarrow>
                  Inr (if neg \<and> n = 0 then NegZero
                       else double_of_rat
                              ((if neg then - of_nat n else of_nat n) / 10 ^ length b))
              | _ \<Rightarrow> Inl ''ValueError'')
         | _ \<Rightarrow> Inl ''ValueError''))"

text \<open>The words of a line, as \<open>str.split()\<close> gives them.\<close>

fun words :: "pystr \<Rightarrow> pystr list" where
  "words [] = []"
| "words (c # cs) =
     (if isspace c then words cs
      else if cs = [] \<or> isspace (hd cs) then [c] # words cs
      else (case words cs of w # ws \<Rightarrow> (c # w) # ws | [] \<Rightarrow> [[c]]))"

text \<open>
  Modelled from the spec: the structural reader is the class \<open>Bvh\<close> of the package
  \<open>bvh\<close>, which is not part of the repository. The spec says that it obtains the declared
  frame count and the declared frame time from the header fields \<open>Frames: N\<close> and
  \<open>Frame Time: T\<close>. \<open>header_reader\<close> takes them from the first line whose first word is
  \<open>Frames:\<close> and from the first line whose first word is \<open>Frame\<close>, and raises
  \<open>LookupError\<close> when the property that is read has no such line.
\<close>

definition header_field ::
  "pystr list list \<Rightarrow> string \<Rightarrow> nat \<Rightarrow> (pystr \<Rightarrow> string + 'a) \<Rightarrow> string + 'a" where
  "header_field rows key i conv =
     (case filter (\<lambda>ws. ws \<noteq> [] \<and> hd ws = str key) rows of
        [] \<Rightarrow> Inl ''LookupError''
      | ws # _ \<Rightarrow> if i < length ws then conv (ws ! i) else Inl ''IndexError'')"

definition header_reader ::
  "(pystr \<Rightarrow> string + int) \<Rightarrow> (pystr \<Rightarrow> string + pyfloat) \<Rightarrow> pystr \<Rightarrow> string + mocap" where
  "header_reader conv_int conv_float content =
     (let rows = map words (split_on 10 content)
      in Inr \<lparr>nframes = header_field rows ''Frames:'' 1 conv_int,
              frame_time = header_field rows ''Frame'' 2 conv_float\<rparr>)"

definition example_rt :: runtime where
  "example_rt =
     \<lparr>py_int = dec_int, py_float = dec_float, Bvh = header_reader dec_int dec_float\<rparr>"

definition file_of_lines :: "string list \<Rightarrow> bytes" where
  "file_of_lines ls = concat (map (\<lambda>l. l @ [CHR 0x0A]) ls)"

definition skeleton :: "string list" where
  "skeleton =
     [''HIERARCHY'', ''ROOT Hips'', ''{'', ''OFFSET 0 0 0'',
      ''CHANNELS 3 Xposition Yposition Zposition'', ''}'']"

definition motion_file :: "string \<Rightarrow> string \<Rightarrow> string list \<Rightarrow> bytes" where
  "motion_file n t rows =
     file_of_lines (skeleton @ [''MOTION'', ''Frames: '' @ n, ''Frame Time: '' @ t] @ rows)"

definition limits_env :: "string \<Rightarrow> string \<Rightarrow> (string \<rightharpoonup> pystr)" where
  "limits_env max_frames fps =
     [''MAX_NUMBER_FRAMES'' \<mapsto> str max_frames, ''RENDER_FPS'' \<mapsto> str fps]"

definition three_rows :: "string list" where
  "three_rows = [''0 0 0'', ''1 1 1'', ''2 2 2'']"

definition two_rows :: "string list" where
  "two_rows = [''0 0 0'', ''1 1 1'']"

text \<open>A file with the two header fields and no \<open>MOTION\<close> line.\<close>

definition header_only :: bytes where
  "header_only = file_of_lines [''Frames: 3'', ''Frame Time: 0.05'']"

text \<open>
  A world for the examples: the server answers the download with a given file and the
  upload with \<open>ok\<close>, and the renderer is a given child process.
\<close>

definition example_world :: "bytes \<Rightarrow> child \<Rightarrow> world" where
  "example_world file c =
     \<lparr>http_get = (\<lambda>url hdrs. Inr file),
      temp_file = Inr (str ''/tmp/tmp0a1b2c3d.bhv''),
      spawn = (\<lambda>args. Inr c),
      open_rb = (\<lambda>path. Inr ''video''),
      http_post = (\<lambda>url part hdrs. Inr (str ''ok''))\<rparr>"

definition task_env :: "string \<rightharpoonup> pystr" where
  "task_env =
     (limits_env ''-1'' ''20'')
       (''SYSTEM_TOKEN'' \<mapsto> str ''secret'', ''API_SERVER'' \<mapsto> str ''http://api'')"

definition output_lines :: "string list \<Rightarrow> bytes list" where
  "output_lines ls = map (\<lambda>l. l @ [CHR 0x0A]) ls"

definition rendering_output :: "string list" where
  "rendering_output =
     [''total_frames 10'', ''Append frame 1'', ''Fra:1 Mem:30.50M'', ''Append frame 2'',
      ''output_file /tmp/out.mp4'', ''Append frame 3'']"

section \<open>Properties of the conversions\<close>

lemma decode_utf8_ascii:
  "list_all (\<lambda>c. (of_char c :: nat) < 0x80) bs \<Longrightarrow> decode_utf8 bs = Some (str bs)"
  by (induction bs) (auto simp: decode_utf8_def str_def utf8_seq_def)

lemma split_on_not_Nil: "split_on sep s \<noteq> []"
  by (induction s) (auto split: list.splits)

lemma split_on_no_sep: "sep \<notin> set s \<Longrightarrow> split_on sep s = [s]"
  by (induction s) auto

lemma split_on_sep_length: "sep \<in> set s \<Longrightarrow> 2 \<le> length (split_on sep s)"
proof (induction s)
  case Nil
  then show ?case by simp
next
  case (Cons c s)
  show ?case
  proof (cases "c = sep")
    case True
    then show ?thesis using split_on_not_Nil [of sep s]
      by (cases "split_on sep s") auto
  next
    case False
    with Cons show ?thesis by (auto split: list.splits)
  qed
qed

lemma split_on_append_sep:
  "sep \<notin> set p \<Longrightarrow> split_on sep (p @ sep # s) = p # split_on sep s"
  by (induction p) auto

lemma last_split_on: "last (split_on sep s) = rev (takeWhile (\<lambda>c. c \<noteq> sep) (rev s))"
proof (induction s)
  case Nil
  show ?case by simp
next
  case (Cons c s)
  show ?case
  proof (cases "sep \<in> set s")
    case True
    then have "\<not> (\<forall>x\<in>set (rev s). x \<noteq> sep)" by auto
    then have tw: "takeWhile (\<lambda>c. c \<noteq> sep) (rev s @ [c]) = takeWhile (\<lambda>c. c \<noteq> sep) (rev s)"
      by (simp add: takeWhile_append1 del: set_rev)
    from True have "2 \<le> length (split_on sep s)" by (rule split_on_sep_length)
    then obtain a b r where "split_on sep s = a # b # r"
      by (cases "split_on sep s"; cases "tl (split_on sep s)") auto
    with Cons tw show ?thesis by auto
  next
    case False
    then have "split_on sep s = [s]" by (rule split_on_no_sep)
    moreover have "takeWhile (\<lambda>c. c \<noteq> sep) (rev s @ [c])
        = rev s @ takeWhile (\<lambda>c. c \<noteq> sep) [c]"
      by (rule takeWhile_append2) (use False in auto)
    ultimately show ?thesis by auto
  qed
qed


text \<open>
  The rounding is to a nearest multiple of the spacing at the exponent of its argument,
  and a tie goes to the even multiple.
\<close>

lemma bit_length_nonneg: "0 \<le> bit_length n"
proof (induction n rule: bit_length.induct)
  case (1 n)
  show ?case
  proof (cases "n \<le> 0")
    case True
    then show ?thesis by (subst bit_length.simps) simp
  next
    case False
    with 1 have "0 \<le> bit_length (n div 2)" by simp
    with False show ?thesis by (subst bit_length.simps) simp
  qed
qed

lemma bit_length_bounds:
  "0 < n \<Longrightarrow> 2 ^ nat (bit_length n - 1) \<le> n \<and> n < 2 ^ nat (bit_length n)"
proof (induction n rule: bit_length.induct)
  case (1 n)
  show ?case
  proof (cases "n = 1")
    case True
    have "bit_length 1 = 1"
      by (subst bit_length.simps, subst bit_length.simps) simp
    with True show ?thesis by simp
  next
    case False
    with "1.prems" have n2: "0 < n div 2" by simp
    from "1.prems" have nle: "\<not> n \<le> 0" by simp
    from "1.IH" [OF nle n2] have
      lo: "2 ^ nat (bit_length (n div 2) - 1) \<le> n div 2"
      and hi: "n div 2 < 2 ^ nat (bit_length (n div 2))" by simp_all
    have bl: "bit_length n = 1 + bit_length (n div 2)"
      using nle by (subst bit_length.simps) simp
    have "bit_length (n div 2) = 1 + bit_length (n div 2 div 2)"
      using n2 by (subst bit_length.simps) simp
    with bit_length_nonneg [of "n div 2 div 2"] have pos: "0 < bit_length (n div 2)"
      by simp
    have e1: "nat (bit_length n - 1) = Suc (nat (bit_length (n div 2) - 1))"
      using pos bl by simp
    have e2: "nat (bit_length n) = Suc (nat (bit_length (n div 2)))"
      using pos bl by simp
    from lo have "2 * 2 ^ nat (bit_length (n div 2) - 1) \<le> n" by simp
    moreover from hi have "n < 2 * 2 ^ nat (bit_length (n div 2))" by simp
    ultimately show ?thesis by (simp add: e1 e2)
  qed
qed


lemma pow2_powi: "pow2 k = 2 powi k"
  by (simp add: pow2_def power_int_def field_simps)

lemma floor_log2_bounds:
  assumes "0 < x"
  shows "pow2 (floor_log2 x) \<le> x \<and> x < pow2 (floor_log2 x + 1)"
proof -
  obtain a b where q: "quotient_of x = (a, b)" by (cases "quotient_of x")
  have b: "0 < b" by (rule quotient_of_denom_pos [OF q])
  have x: "x = of_int a / of_int b" by (rule quotient_of_div [OF q])
  have a: "0 < a" using assms b by (simp add: x zero_less_divide_iff)
  define la lb where "la = bit_length a" and "lb = bit_length b"
  from bit_length_bounds [OF a] have a1: "2 ^ nat (la - 1) \<le> a" and a2: "a < 2 ^ nat la"
    by (simp_all add: la_def)
  from bit_length_bounds [OF b] have b1: "2 ^ nat (lb - 1) \<le> b" and b2: "b < 2 ^ nat lb"
    by (simp_all add: lb_def)
  have la: "1 \<le> la"
  proof (rule ccontr)
    assume "\<not> 1 \<le> la"
    then have "nat la = 0" by simp
    with a2 a show False by simp
  qed
  have lb: "1 \<le> lb"
  proof (rule ccontr)
    assume "\<not> 1 \<le> lb"
    then have "nat lb = 0" by simp
    with b2 b show False by simp
  qed
  have p: "(2::rat) powi (la - 1) = 2 ^ nat (la - 1)" "(2::rat) powi la = 2 ^ nat la"
    "(2::rat) powi (lb - 1) = 2 ^ nat (lb - 1)" "(2::rat) powi lb = 2 ^ nat lb"
    using la lb by (simp_all add: power_int_def)
  have ra1: "(2::rat) powi (la - 1) \<le> of_int a"
  proof -
    have "(of_int (2 ^ nat (la - 1)) :: rat) \<le> of_int a" using a1 by (simp only: of_int_le_iff)
    then show ?thesis by (simp add: p)
  qed
  have ra2: "(of_int a :: rat) < 2 powi la"
  proof -
    have "(of_int a :: rat) < of_int (2 ^ nat la)" using a2 by (simp only: of_int_less_iff)
    then show ?thesis by (simp add: p)
  qed
  have rb1: "(2::rat) powi (lb - 1) \<le> of_int b"
  proof -
    have "(of_int (2 ^ nat (lb - 1)) :: rat) \<le> of_int b" using b1 by (simp only: of_int_le_iff)
    then show ?thesis by (simp add: p)
  qed
  have rb2: "(of_int b :: rat) < 2 powi lb"
  proof -
    have "(of_int b :: rat) < of_int (2 ^ nat lb)" using b2 by (simp only: of_int_less_iff)
    then show ?thesis by (simp add: p)
  qed
  have up: "x < 2 powi (la - lb + 1)"
  proof -
    have "of_int a / of_int b < (2::rat) powi la / 2 powi (lb - 1)"
      by (rule frac_less) (use a ra2 rb1 in simp_all)
    also have "\<dots> = 2 powi (la - (lb - 1))" by (simp add: power_int_diff)
    finally show ?thesis by (simp add: x algebra_simps)
  qed
  have lo: "2 powi (la - lb - 1) < x"
  proof -
    have "(2::rat) powi (la - 1) / 2 powi lb < of_int a / of_int b"
      by (rule frac_less2) (use b ra1 rb2 in simp_all)
    moreover have "(2::rat) powi (la - 1) / 2 powi lb = 2 powi (la - 1 - lb)"
      by (simp add: power_int_diff)
    ultimately show ?thesis by (simp add: x algebra_simps)
  qed
  have fl: "floor_log2 x = (if 2 powi (la - lb) \<le> x then la - lb else la - lb - 1)"
    by (simp add: floor_log2_def q la_def lb_def pow2_powi)
  show ?thesis
  proof (cases "2 powi (la - lb) \<le> x")
    case True
    with up fl show ?thesis by (simp add: pow2_powi)
  next
    case False
    with lo fl show ?thesis by (simp add: pow2_powi)
  qed
qed


lemma round_half_even_error: "\<bar>of_int (round_half_even y) - y\<bar> \<le> 1 / 2"
proof -
  have "of_int \<lfloor>y\<rfloor> \<le> y" "y < of_int \<lfloor>y\<rfloor> + 1" by linarith+
  then show ?thesis
    by (auto simp: round_half_even_def Let_def)
qed

lemma round_half_even_nearest: "\<bar>of_int (round_half_even y) - y\<bar> \<le> \<bar>of_int k - y\<bar>"
proof (cases "k = round_half_even y")
  case True
  then show ?thesis by simp
next
  case False
  then have "1 \<le> \<bar>k - round_half_even y\<bar>" by simp
  then have "(1::rat) \<le> \<bar>of_int k - of_int (round_half_even y)\<bar>"
    by (metis of_int_1 of_int_abs of_int_diff of_int_le_iff)
  with round_half_even_error [of y] show ?thesis by linarith
qed

lemma round_half_even_tie:
  "\<bar>of_int (round_half_even y) - y\<bar> = 1 / 2 \<Longrightarrow> even (round_half_even y)"
proof -
  have "of_int \<lfloor>y\<rfloor> \<le> y" "y < of_int \<lfloor>y\<rfloor> + 1" by linarith+
  then show "\<bar>of_int (round_half_even y) - y\<bar> = 1 / 2 \<Longrightarrow> even (round_half_even y)"
    by (auto simp: round_half_even_def Let_def split: if_splits)
qed

lemma pow2_pos: "0 < pow2 k"
  by (simp add: pow2_def)

lemma abs_scaled: "0 < p \<Longrightarrow> \<bar>a * p - x\<bar> = \<bar>a - x / p\<bar> * (p::rat)"
proof -
  assume p: "0 < p"
  then have "a * p - x = (a - x / p) * p" by (simp add: field_simps)
  then show ?thesis using p by (simp add: abs_mult)
qed

lemma round_binary64_nearest:
  "\<bar>round_binary64 x - x\<bar>
     \<le> \<bar>of_int k * pow2 (max (floor_log2 x - 52) (- 1074)) - x\<bar>"
proof -
  define p where "p = pow2 (max (floor_log2 x - 52) (- 1074))"
  have p: "0 < p" by (simp add: p_def pow2_pos)
  have "\<bar>round_binary64 x - x\<bar> = \<bar>of_int (round_half_even (x / p)) - x / p\<bar> * p"
    by (simp add: round_binary64_def p_def [symmetric] Let_def abs_scaled [OF p])
  also have "\<dots> \<le> \<bar>of_int k - x / p\<bar> * p"
    using p round_half_even_nearest [of "x / p" k] by (simp add: mult_right_mono)
  also have "\<dots> = \<bar>of_int k * p - x\<bar>"
    by (simp add: abs_scaled [OF p])
  finally show ?thesis by (simp add: p_def)
qed

text \<open>The floats of the examples.\<close>

lemma double_24: "double_of_rat 24 = Finite 24"
  by code_simp

lemma double_20: "double_of_rat 20 = Finite 20"
  by code_simp

lemma double_one_24th:
  "double_of_rat (1 / 24) = Finite (6004799503160661 / 144115188075855872)"
  by code_simp

lemma double_one_20th:
  "double_of_rat (1 / 20) = Finite (3602879701896397 / 72057594037927936)"
  by code_simp

lemma double_004166667:
  "double_of_rat (4166667 / 100000000) = Finite (3002399991772311 / 72057594037927936)"
  by code_simp

lemmas text_simps =
  str_def strip_def isspace_def file_of_lines_def motion_file_def skeleton_def
  three_rows_def two_rows_def

lemmas conv_simps = dec_int_def dec_float_def unsigned_def digits_value_def

lemma limits_env_24:
  "load_limits example_rt (limits_env ''-1'' ''24'')
     = Inr (- 1, Finite (6004799503160661 / 144115188075855872))"
  by (simp add: load_limits_def limits_env_def environ_get_def and_then_def raised_def
      example_rt_def conv_simps str_def double_24 double_one_24th)

lemma limits_env_20:
  "load_limits example_rt (limits_env ''-1'' ''20'')
     = Inr (- 1, Finite (3602879701896397 / 72057594037927936))"
  by (simp add: load_limits_def limits_env_def environ_get_def and_then_def raised_def
      example_rt_def conv_simps str_def double_20 double_one_20th)

lemma limits_env_2_20:
  "load_limits example_rt (limits_env ''2'' ''20'')
     = Inr (2, Finite (3602879701896397 / 72057594037927936))"
  by (simp add: load_limits_def limits_env_def environ_get_def and_then_def raised_def
      example_rt_def conv_simps str_def double_20 double_one_20th)

lemma limits_env_lookup:
  "limits_env a b ''MAX_NUMBER_FRAMES'' = Some (str a)"
  "limits_env a b ''RENDER_FPS'' = Some (str b)"
  by (simp_all add: limits_env_def)

lemma example_conversions:
  "py_int example_rt (str ''-1'') = Inr (- 1)"
  "py_int example_rt (str ''2'') = Inr 2"
  "py_float example_rt (str ''24'') = Inr (Finite 24)"
  "py_float example_rt (str ''20'') = Inr (Finite 20)"
  by (simp_all add: example_rt_def conv_simps str_def double_24 double_20)

lemma float_eq_Finite: "r \<noteq> 0 \<Longrightarrow> float_eq t (Finite r) \<longleftrightarrow> t = Finite r"
  by (cases t) auto

section \<open>The example files\<close>

lemma example_file_ascii:
  "list_all (\<lambda>c. (of_char c :: nat) < 0x80) (motion_file ''3'' t three_rows)
     \<longleftrightarrow> list_all (\<lambda>c. (of_char c :: nat) < 0x80) t"
  "list_all (\<lambda>c. (of_char c :: nat) < 0x80) (motion_file ''3'' t two_rows)
     \<longleftrightarrow> list_all (\<lambda>c. (of_char c :: nat) < 0x80) t"
  by (simp_all add: text_simps)

lemma decode_three_rows_005:
  "decode_utf8 (motion_file ''3'' ''0.05'' three_rows)
     = Some (str (motion_file ''3'' ''0.05'' three_rows))"
  by (rule decode_utf8_ascii) (simp add: example_file_ascii)

lemma count_three_rows_005:
  "count_rows None (split_on 10 (str (motion_file ''3'' ''0.05'' three_rows))) = Some 3"
  by (simp add: text_simps)

lemma reader_three_rows_005:
  "Bvh example_rt (str (motion_file ''3'' ''0.05'' three_rows))
     = Inr \<lparr>nframes = Inr 3,
            frame_time = Inr (Finite (3602879701896397 / 72057594037927936))\<rparr>"
  by (simp add: example_rt_def header_reader_def header_field_def text_simps conv_simps
      double_one_20th)

lemma decode_two_rows_005:
  "decode_utf8 (motion_file ''3'' ''0.05'' two_rows)
     = Some (str (motion_file ''3'' ''0.05'' two_rows))"
  by (rule decode_utf8_ascii) (simp add: example_file_ascii)

lemma count_two_rows_005:
  "count_rows None (split_on 10 (str (motion_file ''3'' ''0.05'' two_rows))) = Some 2"
  by (simp add: text_simps)

lemma reader_two_rows_005:
  "Bvh example_rt (str (motion_file ''3'' ''0.05'' two_rows))
     = Inr \<lparr>nframes = Inr 3,
            frame_time = Inr (Finite (3602879701896397 / 72057594037927936))\<rparr>"
  by (simp add: example_rt_def header_reader_def header_field_def text_simps conv_simps
      double_one_20th)

lemma decode_three_rows_004:
  "decode_utf8 (motion_file ''3'' ''0.04166667'' three_rows)
     = Some (str (motion_file ''3'' ''0.04166667'' three_rows))"
  by (rule decode_utf8_ascii) (simp add: example_file_ascii)

lemma count_three_rows_004:
  "count_rows None (split_on 10 (str (motion_file ''3'' ''0.04166667'' three_rows))) = Some 3"
  by (simp add: text_simps)

lemma reader_three_rows_004:
  "Bvh example_rt (str (motion_file ''3'' ''0.04166667'' three_rows))
     = Inr \<lparr>nframes = Inr 3,
            frame_time = Inr (Finite (3002399991772311 / 72057594037927936))\<rparr>"
  by (simp add: example_rt_def header_reader_def header_field_def text_simps conv_simps
      double_004166667)

lemma decode_two_rows_004:
  "decode_utf8 (motion_file ''3'' ''0.04166667'' two_rows)
     = Some (str (motion_file ''3'' ''0.04166667'' two_rows))"
  by (rule decode_utf8_ascii) (simp add: example_file_ascii)

lemma count_two_rows_004:
  "count_rows None (split_on 10 (str (motion_file ''3'' ''0.04166667'' two_rows))) = Some 2"
  by (simp add: text_simps)

lemma reader_two_rows_004:
  "Bvh example_rt (str (motion_file ''3'' ''0.04166667'' two_rows))
     = Inr \<lparr>nframes = Inr 3,
            frame_time = Inr (Finite (3002399991772311 / 72057594037927936))\<rparr>"
  by (simp add: example_rt_def header_reader_def header_field_def text_simps conv_simps
      double_004166667)

section \<open>The validator\<close>

lemma count_rows_unarmed:
  "\<forall>line\<in>set ls. strip line \<noteq> str ''MOTION'' \<Longrightarrow> count_rows None ls = None"
  by (induction ls) simp_all

text \<open>The loop computes the recount of the specification.\<close>

lemma motion_not_blank: "strip l = str ''MOTION'' \<Longrightarrow> strip l \<noteq> []"
  by (simp add: str_def)

lemma count_rows_general:
  "count_rows c ls =
     (case after_motion ls of
        Some r \<Rightarrow> Some (int (length (filter (\<lambda>l. strip l \<noteq> []) r)) - 2)
      | None \<Rightarrow> map_option (\<lambda>k. k + int (length (filter (\<lambda>l. strip l \<noteq> []) ls))) c)"
proof (induction ls arbitrary: c)
  case Nil
  show ?case by (cases c) simp_all
next
  case (Cons l ls)
  show ?case
    by (cases c) (auto simp: Cons.IH Let_def motion_not_blank split: option.splits)
qed

lemma count_rows_recounted: "count_rows None ls = recounted ls"
  by (simp add: count_rows_general recounted_def split: option.splits)

lemma load_limits_unfold:
  assumes "environ ''MAX_NUMBER_FRAMES'' = Some smax" and "py_int rt smax = Inr MAXF"
    and "environ ''RENDER_FPS'' = Some sfps" and "py_float rt sfps = Inr fps"
  shows "load_limits rt environ =
           (case float_recip fps of Inl e \<Rightarrow> Inl (Raised e) | Inr FT \<Rightarrow> Inr (MAXF, FT))"
  using assms
  by (simp add: load_limits_def environ_get_def and_then_def raised_def split: sum.splits)

text \<open>
  Once the limits are read, the file is decoded and the reader has given the declared
  number of frames, the three checks are made in this order.
\<close>

lemma validate_unfold:
  assumes "load_limits rt environ = Inr (MAXF, FT)"
    and "decode_utf8 bvh_file = Some content"
    and "Bvh rt content = Inr m"
    and "nframes m = Inr n"
  shows "validate_bvh_file rt environ bvh_file =
     (if Some n \<noteq> count_rows None (split_on 10 content)
        then Inl (TaskFailure (rows_mismatch (count_rows None (split_on 10 content)) n))
      else if MAXF \<noteq> - 1 \<and> n > MAXF then Inl (TaskFailure (too_many_frames n MAXF))
      else (case frame_time m of
              Inl e \<Rightarrow> Inl (Raised e)
            | Inr t \<Rightarrow> if \<not> float_eq t FT then Inl (TaskFailure (frame_time_differs t FT))
                       else Inr ()))"
  using assms
  by (simp add: validate_bvh_file_def and_then_def raised_def decode_def Let_def
      split: sum.splits)

text \<open>
  Claim C1, as amended. For every file that decodes as UTF-8, whose recounted rows equal
  the declared number of frames, whose declared frame time equals the configured
  \<open>1.0 / fps\<close>, and whose declared number of frames does not exceed the configured
  maximum (or the maximum is the sentinel \<open>-1\<close>), \<open>validate_bvh_file\<close> returns without
  raising. The limits are those read from the environment, and the declared values those
  that the reader reports.
\<close>

theorem validate_accepts:
  assumes "load_limits rt environ = Inr (MAXF, FT)"
    and "decode_utf8 bvh_file = Some content"
    and "Bvh rt content = Inr m"
    and "nframes m = Inr n"
    and "frame_time m = Inr t"
    and "recounted (split_on 10 content) = Some n"
    and "float_eq t FT"
    and "MAXF = - 1 \<or> n \<le> MAXF"
  shows "validate_bvh_file rt environ bvh_file = Inr ()"
  using assms(5-8)
  by (auto simp add: validate_unfold [OF assms(1-4)] count_rows_recounted)

text \<open>At 20 frames per second and without a maximum, the file of three rows is accepted.\<close>

theorem validate_accepts_witness:
  "validate_bvh_file example_rt (limits_env ''-1'' ''20'')
     (motion_file ''3'' ''0.05'' three_rows) = Inr ()"
  by (rule validate_accepts [OF limits_env_20 decode_three_rows_005 reader_three_rows_005,
        where n = 3 and t = "Finite (3602879701896397 / 72057594037927936)"])
     (simp_all add: count_three_rows_005 count_rows_recounted [symmetric])

text \<open>
  Without the bound on the declared number of frames, C1 fails: with a maximum of 2 the
  same file, whose rows and frame time agree with its header, is rejected.
\<close>

theorem validate_accepts_counterexample:
  "decode_utf8 (motion_file ''3'' ''0.05'' three_rows)
     = Some (str (motion_file ''3'' ''0.05'' three_rows))
   \<and> recounted (split_on 10 (str (motion_file ''3'' ''0.05'' three_rows))) = Some 3
   \<and> Bvh example_rt (str (motion_file ''3'' ''0.05'' three_rows))
       = Inr \<lparr>nframes = Inr 3,
              frame_time = Inr (Finite (3602879701896397 / 72057594037927936))\<rparr>
   \<and> load_limits example_rt (limits_env ''2'' ''20'')
       = Inr (2, Finite (3602879701896397 / 72057594037927936))
   \<and> validate_bvh_file example_rt (limits_env ''2'' ''20'')
       (motion_file ''3'' ''0.05'' three_rows)
       = Inl (TaskFailure (too_many_frames 3 2))"
  by (simp add: decode_three_rows_005 count_three_rows_005 reader_three_rows_005
      limits_env_2_20 count_rows_recounted [symmetric]
      validate_unfold [OF limits_env_2_20 decode_three_rows_005 reader_three_rows_005])

text \<open>
  Claim C5, as amended. With 24 frames per second configured, a file that declares 3
  frames and has 3 rows is accepted exactly when its frame time is the float
  \<open>1.0 / 24.0\<close>, which is \<open>6004799503160661 / 2^57\<close>; otherwise it is rejected for its
  frame time. The literal \<open>0.04166667\<close> is another float, so the file of the scenario
  is rejected.
\<close>

theorem frame_time_24fps:
  assumes "environ ''MAX_NUMBER_FRAMES'' = Some smax" and "py_int rt smax = Inr MAXF"
    and "environ ''RENDER_FPS'' = Some sfps" and "py_float rt sfps = Inr (Finite 24)"
    and "MAXF = - 1 \<or> 3 \<le> MAXF"
    and "decode_utf8 bvh_file = Some content"
    and "Bvh rt content = Inr m"
    and "nframes m = Inr 3"
    and "recounted (split_on 10 content) = Some 3"
    and "frame_time m = Inr t"
  shows "validate_bvh_file rt environ bvh_file =
           (if t = Finite (6004799503160661 / 144115188075855872) then Inr ()
            else Inl (TaskFailure
                   (frame_time_differs t (Finite (6004799503160661 / 144115188075855872)))))
         \<and> double_of_rat (4166667 / 100000000)
             \<noteq> Finite (6004799503160661 / 144115188075855872)"
proof -
  have "load_limits rt environ = Inr (MAXF, Finite (6004799503160661 / 144115188075855872))"
    by (simp add: load_limits_unfold [OF assms(1-4)] double_one_24th)
  from validate_unfold [OF this assms(6-8)] assms(5,9,10)
  show ?thesis
    by (auto simp add: float_eq_Finite double_004166667 count_rows_recounted)
qed

theorem frame_time_24fps_witness:
  "validate_bvh_file example_rt (limits_env ''-1'' ''24'')
     (motion_file ''3'' ''0.04166667'' three_rows)
   = Inl (TaskFailure
       (frame_time_differs (Finite (3002399991772311 / 72057594037927936))
          (Finite (6004799503160661 / 144115188075855872))))"
proof -
  have "validate_bvh_file example_rt (limits_env ''-1'' ''24'')
     (motion_file ''3'' ''0.04166667'' three_rows)
     = (if Finite (3002399991772311 / 72057594037927936)
            = Finite (6004799503160661 / 144115188075855872) then Inr ()
        else Inl (TaskFailure
               (frame_time_differs (Finite (3002399991772311 / 72057594037927936))
                  (Finite (6004799503160661 / 144115188075855872)))))"
    by (rule frame_time_24fps [OF limits_env_lookup(1) example_conversions(1)
          limits_env_lookup(2) example_conversions(3) _ decode_three_rows_004
          reader_three_rows_004, THEN conjunct1])
       (simp_all add: count_three_rows_004 count_rows_recounted [symmetric])
  then show ?thesis by simp
qed

text \<open>The file of scenario 1 does not pass at 24 frames per second.\<close>

theorem scenario_1_counterexample:
  "validate_bvh_file example_rt (limits_env ''-1'' ''24'')
     (motion_file ''3'' ''0.04166667'' three_rows) \<noteq> Inr ()"
  by (simp add: validate_unfold [OF limits_env_24 decode_three_rows_004 reader_three_rows_004]
      count_three_rows_004)

lemma header_only_facts:
  "decode_utf8 header_only = Some (str header_only)"
  "\<forall>line\<in>set (split_on 10 (str header_only)). strip line \<noteq> str ''MOTION''"
  "Bvh example_rt (str header_only)
     = Inr \<lparr>nframes = Inr 3,
            frame_time = Inr (Finite (3602879701896397 / 72057594037927936))\<rparr>"
    apply (rule decode_utf8_ascii, simp add: header_only_def text_simps)
   apply (simp add: header_only_def text_simps)
  apply (simp add: example_rt_def header_reader_def header_field_def header_only_def text_simps conv_simps
      double_one_20th)
  done

text \<open>
  Claim C6, as amended. For a file that decodes as UTF-8 and has no line that is
  \<open>MOTION\<close> after stripping, the counter stays \<open>None\<close> and validation never succeeds:
  when the reader reports a declared number of frames \<open>n\<close>, the failure is the
  \<open>TaskFailure\<close> of the row count, with \<open>None\<close> as the recounted value; when the reader
  or its property \<open>nframes\<close> raises, that exception leaves the function as it is.
\<close>

theorem validate_without_motion:
  assumes "load_limits rt environ = Inr (MAXF, FT)"
    and "decode_utf8 bvh_file = Some content"
    and "\<forall>line\<in>set (split_on 10 content). strip line \<noteq> str ''MOTION''"
  shows "validate_bvh_file rt environ bvh_file =
           (case Bvh rt content of
              Inl e \<Rightarrow> Inl (Raised e)
            | Inr m \<Rightarrow>
                (case nframes m of
                   Inl e \<Rightarrow> Inl (Raised e)
                 | Inr n \<Rightarrow> Inl (TaskFailure (rows_mismatch None n))))"
  using assms(1,2) count_rows_unarmed [OF assms(3)]
  by (simp add: validate_bvh_file_def and_then_def raised_def decode_def Let_def
      split: sum.splits)

text \<open>The file with the header fields alone: the failure is the typed one.\<close>

theorem validate_without_motion_witness:
  "validate_bvh_file example_rt (limits_env ''-1'' ''20'') header_only
     = Inl (TaskFailure (rows_mismatch None 3))"
  using validate_without_motion [OF limits_env_20 header_only_facts(1,2)]
  by (simp add: header_only_facts(3))

text \<open>
  The empty file: it decodes, its only line is empty, and what leaves the function is
  the \<open>LookupError\<close> of the reader, not a \<open>TaskFailure\<close>.
\<close>

theorem validate_without_motion_counterexample:
  "decode_utf8 [] = Some [] \<and> split_on 10 [] = [[]] \<and> strip [] \<noteq> str ''MOTION''
   \<and> validate_bvh_file example_rt (limits_env ''-1'' ''20'') [] = Inl (Raised ''LookupError'')"
  using limits_env_20
  by (simp add: validate_bvh_file_def and_then_def raised_def decode_def decode_utf8_def
      example_rt_def header_reader_def header_field_def strip_def str_def)

text \<open>
  Claim C7. For every file whose recounted rows differ from the declared number of
  frames, validation fails with the \<open>TaskFailure\<close> whose message interpolates the
  recounted value and the declared number, whatever the maximum, the required frame time
  and the declared frame time are.
\<close>

theorem validate_rows_mismatch:
  assumes "load_limits rt environ = Inr (MAXF, FT)"
    and "decode_utf8 bvh_file = Some content"
    and "Bvh rt content = Inr m"
    and "nframes m = Inr n"
    and "recounted (split_on 10 content) = counter"
    and "counter \<noteq> Some n"
  shows "validate_bvh_file rt environ bvh_file = Inl (TaskFailure (rows_mismatch counter n))
         \<and> rows_mismatch counter n =
             [Lit ''The number of rows with motion data ('',
              (case counter of None \<Rightarrow> Fmt_None | Some c \<Rightarrow> Fmt_int c),
              Lit '') does not match the Frames field ('', Fmt_int n, Lit '')'']"
  using assms(5,6)
  by (auto simp add: validate_unfold [OF assms(1-4)] rows_mismatch_def fmt_counter_def
      count_rows_recounted)

text \<open>Scenario 2: three frames declared, two rows present.\<close>

theorem validate_rows_mismatch_witness:
  "validate_bvh_file example_rt (limits_env ''-1'' ''24'')
     (motion_file ''3'' ''0.04166667'' two_rows)
     = Inl (TaskFailure
         [Lit ''The number of rows with motion data ('', Fmt_int 2,
          Lit '') does not match the Frames field ('', Fmt_int 3, Lit '')''])"
  using validate_rows_mismatch [OF limits_env_24 decode_two_rows_004 reader_two_rows_004 _
      count_two_rows_004 [unfolded count_rows_recounted], of 3]
  by simp

text \<open>
  Claim C8, as amended. When the configured maximum is not \<open>-1\<close>, the declared number of
  frames exceeds it and the recounted rows equal the declared number, validation fails
  with the \<open>TaskFailure\<close> that cites the declared number and the maximum. When the
  configured maximum is \<open>-1\<close>, no file is rejected with that failure.
\<close>

theorem frame_limit:
  "(load_limits rt environ = Inr (MAXF, FT) \<and> MAXF \<noteq> - 1
      \<and> decode_utf8 bvh_file = Some content \<and> Bvh rt content = Inr m \<and> nframes m = Inr n
      \<and> recounted (split_on 10 content) = Some n \<and> MAXF < n
    \<longrightarrow> validate_bvh_file rt environ bvh_file = Inl (TaskFailure (too_many_frames n MAXF)))
   \<and> (load_limits rt environ = Inr (- 1, FT)
    \<longrightarrow> validate_bvh_file rt environ bvh_file \<noteq> Inl (TaskFailure (too_many_frames k l)))"
proof (intro conjI impI)
  assume "load_limits rt environ = Inr (MAXF, FT) \<and> MAXF \<noteq> - 1
      \<and> decode_utf8 bvh_file = Some content \<and> Bvh rt content = Inr m \<and> nframes m = Inr n
      \<and> recounted (split_on 10 content) = Some n \<and> MAXF < n"
  then show "validate_bvh_file rt environ bvh_file = Inl (TaskFailure (too_many_frames n MAXF))"
    by (simp add: validate_unfold [of rt environ MAXF FT bvh_file content m n]
        count_rows_recounted)
next
  assume "load_limits rt environ = Inr (- 1, FT)"
  then show "validate_bvh_file rt environ bvh_file \<noteq> Inl (TaskFailure (too_many_frames k l))"
    by (simp add: validate_bvh_file_def and_then_def raised_def decode_def Let_def
        too_many_frames_def rows_mismatch_def frame_time_differs_def
        split: sum.splits option.splits)
qed

text \<open>Scenario 3, and the same file without a maximum.\<close>

theorem frame_limit_witness:
  "validate_bvh_file example_rt (limits_env ''2'' ''20'') (motion_file ''3'' ''0.05'' three_rows)
     = Inl (TaskFailure (too_many_frames 3 2))
   \<and> validate_bvh_file example_rt (limits_env ''-1'' ''20'')
       (motion_file ''3'' ''0.05'' three_rows) \<noteq> Inl (TaskFailure (too_many_frames 3 2))"
  using frame_limit [where rt = example_rt and environ = "limits_env ''2'' ''20''"
      and MAXF = 2 and FT = "Finite (3602879701896397 / 72057594037927936)"
      and bvh_file = "motion_file ''3'' ''0.05'' three_rows"
      and content = "str (motion_file ''3'' ''0.05'' three_rows)"
      and m = "\<lparr>nframes = Inr 3,
                 frame_time = Inr (Finite (3602879701896397 / 72057594037927936))\<rparr>"
      and n = 3, THEN conjunct1]
    frame_limit [where rt = example_rt and environ = "limits_env ''-1'' ''20''"
      and FT = "Finite (3602879701896397 / 72057594037927936)"
      and bvh_file = "motion_file ''3'' ''0.05'' three_rows" and k = 3 and l = 2,
      THEN conjunct2]
  by (simp add: limits_env_2_20 limits_env_20 decode_three_rows_005 reader_three_rows_005
      count_three_rows_005 count_rows_recounted [symmetric])

text \<open>
  With a maximum of 2, a file that declares 3 frames and has 2 rows is rejected for its
  rows, not for the number of frames: the row check comes first.
\<close>

theorem frame_limit_counterexample:
  "load_limits example_rt (limits_env ''2'' ''20'')
       = Inr (2, Finite (3602879701896397 / 72057594037927936))
   \<and> Bvh example_rt (str (motion_file ''3'' ''0.05'' two_rows))
       = Inr \<lparr>nframes = Inr 3,
              frame_time = Inr (Finite (3602879701896397 / 72057594037927936))\<rparr>
   \<and> recounted (split_on 10 (str (motion_file ''3'' ''0.05'' two_rows))) = Some 2
   \<and> validate_bvh_file example_rt (limits_env ''2'' ''20'') (motion_file ''3'' ''0.05'' two_rows)
       = Inl (TaskFailure (rows_mismatch (Some 2) 3))
   \<and> rows_mismatch (Some 2) 3 \<noteq> too_many_frames 3 2"
  by (simp add: limits_env_2_20 reader_two_rows_005 count_two_rows_005
      count_rows_recounted [symmetric]
      validate_unfold [OF limits_env_2_20 decode_two_rows_005 reader_two_rows_005]
      rows_mismatch_def too_many_frames_def)

section \<open>The task\<close>

lemma next_step_Inr [simp]: "next_step (evs, Inr x) f = (evs @ fst (f x), snd (f x))"
  by (simp add: next_step_def split: prod.splits)

lemma next_step_Inl [simp]: "next_step (evs, Inl e) f = (evs, Inl e)"
  by (simp add: next_step_def)

lemma next_step_pure_Inr [simp]: "next_step (pure (Inr x)) f = f x"
  by (simp add: pure_def)

lemma next_step_pure_Inl [simp]: "next_step (pure (Inl e)) f = ([], Inl e)"
  by (simp add: pure_def)

lemma next_step_call_Inr [simp]: "next_step (call ev (Inr x)) f = (ev # fst (f x), snd (f x))"
  by (simp add: call_def)

lemma next_step_call_Inl [simp]: "next_step (call ev (Inl e)) f = ([ev], Inl e)"
  by (simp add: call_def)

lemma read_stdout_Cons:
  "read_stdout rt w A H tot cur (raw # rest) =
     (case decode raw of
        Inl e \<Rightarrow> ([], Inl e)
      | Inr line \<Rightarrow>
          (case handle_line rt tot cur (strip line) of
             Inl e \<Rightarrow> ([], Inl e)
           | Inr (Output_file file_name) \<Rightarrow>
               (fst (upload w A H file_name), map_sum id Return (snd (upload w A H file_name)))
           | Inr (Progress tot' cur') \<Rightarrow>
               (progress_update tot' cur' @ fst (read_stdout rt w A H tot' cur' rest),
                snd (read_stdout rt w A H tot' cur' rest))))"
  by (auto simp: pure_def next_step_def split: sum.splits line_action.splits prod.splits)

lemma read_stdout_Nil: "read_stdout rt w A H tot cur [] = ([], Inr Exhausted)"
  by (simp add: pure_def)

declare read_stdout.simps [simp del]

lemma upload_unfold:
  "upload w A H file_name =
     (case open_rb w file_name of
        Inl e \<Rightarrow> ([Open_file file_name], Inl (Raised e))
      | Inr f \<Rightarrow>
          ([Open_file file_name,
            Http_post (A @ str ''/upload_video'') ''file'' (basename file_name) H],
           raised (http_post w (A @ str ''/upload_video'') (''file'', basename file_name, f) H)))"
  by (simp add: upload_def raised_def call_def split: sum.splits)

lemma rendering_upload: "filter is_rendering (fst (upload w A H file_name)) = []"
  by (simp add: upload_unfold split: sum.splits)

lemma not_Exhausted [simp]: "map_sum id Return r \<noteq> Inr Exhausted"
  by (cases r) auto

lemma read_stdout_append:
  "snd (read_stdout rt w A H tot cur pre) = Inr Exhausted \<Longrightarrow>
   \<exists>tot' cur'. \<forall>rest. read_stdout rt w A H tot cur (pre @ rest)
      = (fst (read_stdout rt w A H tot cur pre) @ fst (read_stdout rt w A H tot' cur' rest),
         snd (read_stdout rt w A H tot' cur' rest))"
proof (induction pre arbitrary: tot cur)
  case Nil
  then show ?case by (auto simp: read_stdout_Nil)
next
  case (Cons raw pre)
  from Cons.prems obtain line t c where
    d: "decode raw = Inr line" and h: "handle_line rt tot cur (strip line) = Inr (Progress t c)"
    and r: "snd (read_stdout rt w A H t c pre) = Inr Exhausted"
    by (auto simp: read_stdout_Cons split: sum.splits line_action.splits)
  from Cons.IH [OF r] obtain tot' cur' where
    "\<forall>rest. read_stdout rt w A H t c (pre @ rest)
      = (fst (read_stdout rt w A H t c pre) @ fst (read_stdout rt w A H tot' cur' rest),
         snd (read_stdout rt w A H tot' cur' rest))" by blast
  then show ?case
    using d h by (auto simp: read_stdout_Cons)
qed

lemma fetch_unfold:
  "fetch environ w uri =
     (case environ ''SYSTEM_TOKEN'' of
        None \<Rightarrow> ([], Inl (Raised ''KeyError''))
      | Some token \<Rightarrow>
          (case environ ''API_SERVER'' of
             None \<Rightarrow> ([], Inl (Raised ''KeyError''))
           | Some A \<Rightarrow>
               ([Update_state ''PROCESSING'' None,
                 Http_get (A @ uri) [(''Authorization'', str ''Bearer '' @ token)]],
                (case http_get w (A @ uri) [(''Authorization'', str ''Bearer '' @ token)] of
                   Inl e \<Rightarrow> Inl (Raised e)
                 | Inr f \<Rightarrow> Inr ([(''Authorization'', str ''Bearer '' @ token)], A, f)))))"
  by (simp add: fetch_def environ_get_def raised_def Let_def pure_def
      split: option.splits sum.splits)

lemma fetch_no_spawn: "filter is_spawn (fst (fetch environ w uri)) = []"
  by (simp add: fetch_unfold split: option.splits)

lemma start_renderer_unfold:
  "fetch environ w uri = (evs, Inr (H, A, f)) \<Longrightarrow>
   start_renderer rt environ w uri =
     (case validate_bvh_file rt environ f of
        Inl e \<Rightarrow> (evs, Inl e)
      | Inr _ \<Rightarrow>
          (case temp_file w of
             Inl e \<Rightarrow> (evs, Inl (Raised e))
           | Inr name \<Rightarrow>
               (evs @ [Temp_file name f, Spawn (blender_args name)],
                (case spawn w (blender_args name) of
                   Inl e \<Rightarrow> Inl (Raised e)
                 | Inr c \<Rightarrow> Inr (H, A, \<lparr>proc = c, returncode = None\<rparr>)))))"
  by (simp add: start_renderer_def raised_def Popen_def pure_def split: sum.splits)

lemma start_renderer_fetch_fails:
  "snd (fetch environ w uri) = Inl e \<Longrightarrow>
   start_renderer rt environ w uri = (fst (fetch environ w uri), Inl e)"
  by (cases "fetch environ w uri") (simp add: start_renderer_def)

lemma render_unfold:
  "start_renderer rt environ w uri = (evs, Inr (H, A, process)) \<Longrightarrow>
   render rt environ w uri =
     (evs @ fst (read_stdout rt w A H None None (stdout_lines (proc process))),
      (case snd (read_stdout rt w A H None None (stdout_lines (proc process))) of
         Inl e \<Rightarrow> Inl e
       | Inr (Return body) \<Rightarrow> Inr (Some body)
       | Inr Exhausted \<Rightarrow> after_loop process))"
  by (cases "read_stdout rt w A H None None (stdout_lines (proc process))")
     (auto simp: render_def pure_def split: sum.splits loop_exit.splits)

lemma render_not_started:
  "snd (start_renderer rt environ w uri) = Inl e \<Longrightarrow>
   render rt environ w uri = (fst (start_renderer rt environ w uri), Inl e)"
  by (cases "start_renderer rt environ w uri") (simp add: render_def)

text \<open>
  Claim C2. The renderer is spawned only after validation has returned: when \<open>Spawn\<close>
  is in the trace of the task, the download succeeded and \<open>validate_bvh_file\<close>
  returned on the downloaded bytes; and whenever \<open>validate_bvh_file\<close> raises, the task
  ends with that exception and its trace has no \<open>Spawn\<close>.
\<close>

theorem validated_before_spawn:
  "(Spawn args \<in> set (fst (render rt environ w uri))
      \<longrightarrow> (\<exists>H A f. snd (fetch environ w uri) = Inr (H, A, f)
             \<and> validate_bvh_file rt environ f = Inr ()))
   \<and> (snd (fetch environ w uri) = Inr (H, A, f) \<and> validate_bvh_file rt environ f = Inl e
      \<longrightarrow> snd (render rt environ w uri) = Inl e
          \<and> filter is_spawn (fst (render rt environ w uri)) = [])"
proof (intro conjI impI)
  assume a: "snd (fetch environ w uri) = Inr (H, A, f) \<and> validate_bvh_file rt environ f = Inl e"
  then have "start_renderer rt environ w uri = (fst (fetch environ w uri), Inl e)"
    by (cases "fetch environ w uri") (simp add: start_renderer_unfold)
  then have "render rt environ w uri = (fst (fetch environ w uri), Inl e)"
    by (simp add: render_def)
  then show "snd (render rt environ w uri) = Inl e"
    and "filter is_spawn (fst (render rt environ w uri)) = []"
    by (simp_all add: fetch_no_spawn)
next
  assume s: "Spawn args \<in> set (fst (render rt environ w uri))"
  show "\<exists>H A f. snd (fetch environ w uri) = Inr (H, A, f)
             \<and> validate_bvh_file rt environ f = Inr ()"
  proof (cases "snd (fetch environ w uri)")
    case (Inl e)
    then have "render rt environ w uri = (fst (fetch environ w uri), Inl e)"
      by (simp add: start_renderer_fetch_fails render_def)
    with s have "Spawn args \<in> set (filter is_spawn (fst (fetch environ w uri)))" by simp
    then show ?thesis by (simp add: fetch_no_spawn)
  next
    case (Inr r)
    obtain H' A' f' where r: "r = (H', A', f')" by (cases r)
    with Inr have fe: "fetch environ w uri = (fst (fetch environ w uri), Inr (H', A', f'))"
      by (simp add: prod_eq_iff)
    show ?thesis
    proof (cases "validate_bvh_file rt environ f'")
      case (Inl e)
      then have "render rt environ w uri = (fst (fetch environ w uri), Inl e)"
        by (simp add: start_renderer_unfold [OF fe] render_def)
      with s have "Spawn args \<in> set (filter is_spawn (fst (fetch environ w uri)))" by simp
      then show ?thesis by (simp add: fetch_no_spawn)
    next
      case (Inr u)
      with \<open>snd (fetch environ w uri) = Inr r\<close> r show ?thesis by simp
    qed
  qed
qed


lemma task_env_limits:
  "load_limits example_rt task_env = Inr (- 1, Finite (3602879701896397 / 72057594037927936))"
  by (simp add: load_limits_unfold [where smax = "str ''-1''" and sfps = "str ''20''"]
      task_env_def limits_env_def example_conversions double_one_20th)

lemma task_env_accepts:
  "validate_bvh_file example_rt task_env (motion_file ''3'' ''0.05'' three_rows) = Inr ()"
  by (simp add: validate_unfold [OF task_env_limits decode_three_rows_005 reader_three_rows_005]
      count_three_rows_005)

lemma task_env_rejects:
  "validate_bvh_file example_rt task_env (motion_file ''3'' ''0.05'' two_rows)
     = Inl (TaskFailure (rows_mismatch (Some 2) 3))"
  by (simp add: validate_unfold [OF task_env_limits decode_two_rows_005 reader_two_rows_005]
      count_two_rows_005)

lemma example_world_fields:
  "http_get (example_world f c) url hdrs = Inr f"
  "temp_file (example_world f c) = Inr (str ''/tmp/tmp0a1b2c3d.bhv'')"
  "spawn (example_world f c) args = Inr c"
  "open_rb (example_world f c) path = Inr ''video''"
  "http_post (example_world f c) url part hdrs = Inr (str ''ok'')"
  by (simp_all add: example_world_def)

lemma example_fetch:
  "fetch task_env (example_world f c) uri =
     ([Update_state ''PROCESSING'' None,
       Http_get (str ''http://api'' @ uri) [(''Authorization'', str ''Bearer secret'')]],
      Inr ([(''Authorization'', str ''Bearer secret'')], str ''http://api'', f))"
  by (simp add: fetch_unfold task_env_def example_world_fields str_def)

lemma example_start:
  "validate_bvh_file example_rt task_env f = Inr () \<Longrightarrow>
   start_renderer example_rt task_env (example_world f c) uri =
     ([Update_state ''PROCESSING'' None,
       Http_get (str ''http://api'' @ uri) [(''Authorization'', str ''Bearer secret'')],
       Temp_file (str ''/tmp/tmp0a1b2c3d.bhv'') f,
       Spawn (blender_args (str ''/tmp/tmp0a1b2c3d.bhv''))],
      Inr ([(''Authorization'', str ''Bearer secret'')], str ''http://api'',
           \<lparr>proc = c, returncode = None\<rparr>))"
  by (simp add: start_renderer_unfold [OF example_fetch] example_world_fields)

text \<open>A download that is rejected, and one that is accepted and reaches the renderer.\<close>

theorem validated_before_spawn_witness:
  "snd (render example_rt task_env
          (example_world (motion_file ''3'' ''0.05'' two_rows)
             \<lparr>stdout_lines = [], stderr_content = [], exit_status = 0\<rparr>) (str ''/files/1''))
     = Inl (TaskFailure (rows_mismatch (Some 2) 3))
   \<and> filter is_spawn (fst (render example_rt task_env
          (example_world (motion_file ''3'' ''0.05'' two_rows)
             \<lparr>stdout_lines = [], stderr_content = [], exit_status = 0\<rparr>) (str ''/files/1'')))
     = []
   \<and> Spawn (blender_args (str ''/tmp/tmp0a1b2c3d.bhv''))
       \<in> set (fst (render example_rt task_env
          (example_world (motion_file ''3'' ''0.05'' three_rows)
             \<lparr>stdout_lines = [], stderr_content = [], exit_status = 0\<rparr>) (str ''/files/1'')))
   \<and> (\<exists>H A f. snd (fetch task_env
          (example_world (motion_file ''3'' ''0.05'' three_rows)
             \<lparr>stdout_lines = [], stderr_content = [], exit_status = 0\<rparr>) (str ''/files/1''))
           = Inr (H, A, f)
         \<and> validate_bvh_file example_rt task_env f = Inr ())"
proof -
  let ?c = "\<lparr>stdout_lines = [], stderr_content = [], exit_status = 0\<rparr>"
  let ?w2 = "example_world (motion_file ''3'' ''0.05'' two_rows) ?c"
  let ?w3 = "example_world (motion_file ''3'' ''0.05'' three_rows) ?c"
  have s: "Spawn (blender_args (str ''/tmp/tmp0a1b2c3d.bhv''))
       \<in> set (fst (render example_rt task_env ?w3 (str ''/files/1'')))"
    by (simp add: render_unfold [OF example_start [OF task_env_accepts]])
  from validated_before_spawn [where rt = example_rt and environ = task_env and w = ?w2
      and uri = "str ''/files/1''" and f = "motion_file ''3'' ''0.05'' two_rows"
      and e = "TaskFailure (rows_mismatch (Some 2) 3)", THEN conjunct2]
    validated_before_spawn [where rt = example_rt and environ = task_env and w = ?w3
      and uri = "str ''/files/1''"
      and args = "blender_args (str ''/tmp/tmp0a1b2c3d.bhv'')", THEN conjunct1, rule_format,
      OF s] s
  show ?thesis
    by (simp add: example_fetch task_env_rejects)
qed

lemma after_loop_unpolled:
  "after_loop \<lparr>proc = c, returncode = None\<rparr> =
     (case decode_utf8 (stderr_content c) of
        None \<Rightarrow> Inl (Raised ''UnicodeDecodeError'')
      | Some msg \<Rightarrow> Inl (TaskFailure [Txt msg]))"
  by (simp add: after_loop_def decode_def and_then_def split: option.splits)

text \<open>Had the task waited for the renderer, the test would follow the exit status.\<close>

lemma after_loop_wait:
  "after_loop (wait p) =
     (if exit_status (proc p) \<noteq> 0
      then (case decode_utf8 (stderr_content (proc p)) of
              None \<Rightarrow> Inl (Raised ''UnicodeDecodeError'')
            | Some msg \<Rightarrow> Inl (TaskFailure [Txt msg]))
      else Inr None)"
  by (simp add: after_loop_def wait_def decode_def and_then_def split: option.splits)

text \<open>
  Claim C3, on a renderer that prints nothing, writes \<open>warning\<close> to its \<open>stderr\<close> and
  exits with status 0: the task raises the \<open>TaskFailure\<close> with that text. The test
  reads \<open>returncode\<close>, which is still \<open>None\<close>, so the exit status has no part in it.
\<close>

theorem exit_zero_raises:
  "render example_rt task_env
     (example_world (motion_file ''3'' ''0.05'' three_rows)
        \<lparr>stdout_lines = [], stderr_content = ''warning'', exit_status = 0\<rparr>) (str ''/files/1'')
   = ([Update_state ''PROCESSING'' None,
       Http_get (str ''http://api/files/1'') [(''Authorization'', str ''Bearer secret'')],
       Temp_file (str ''/tmp/tmp0a1b2c3d.bhv'') (motion_file ''3'' ''0.05'' three_rows),
       Spawn (blender_args (str ''/tmp/tmp0a1b2c3d.bhv''))],
      Inl (TaskFailure [Txt (str ''warning'')]))"
  by (simp add: render_unfold [OF example_start [OF task_env_accepts]] read_stdout_Nil
      after_loop_unpolled decode_utf8_ascii) (simp add: str_def)


lemma rendering_start: "filter is_rendering (fst (start_renderer rt environ w uri)) = []"
proof (cases "snd (fetch environ w uri)")
  case (Inl e)
  then show ?thesis
    by (simp add: start_renderer_fetch_fails fetch_unfold split: option.splits)
next
  case (Inr r)
  obtain H A f where "r = (H, A, f)" by (cases r)
  with Inr have "fetch environ w uri = (fst (fetch environ w uri), Inr (H, A, f))"
    by (simp add: prod_eq_iff)
  from start_renderer_unfold [OF this] show ?thesis
    by (simp add: fetch_unfold split: option.splits sum.splits)
qed

text \<open>The loop, line by line, does what the shapes of the lines say.\<close>

lemma total_frames_split:
  assumes "startswith s (str ''total_frames '')"
  shows "split_on 32 s = str ''total_frames'' # split_on 32 (drop 13 s)"
proof -
  have "length (str ''total_frames '') = 13"
    and "str ''total_frames '' = str ''total_frames'' @ [32]"
    by (simp_all add: str_def)
  with assms have "take 13 s = str ''total_frames'' @ [32]"
    by (simp add: startswith_def)
  then have "s = str ''total_frames'' @ 32 # drop 13 s"
    by (metis append_take_drop_id append.assoc append_Cons append_Nil)
  moreover have "32 \<notin> set (str ''total_frames'')" by (simp add: str_def)
  ultimately show ?thesis by (metis split_on_append_sep)
qed

lemma handle_total:
  assumes "startswith s (str ''total_frames '')"
  shows "handle_line rt tot cur s =
           (if 32 \<in> set (drop 13 s) then Inl (Raised ''ValueError'')
            else and_then (raised (py_float rt (drop 13 s))) (\<lambda>f.
                 and_then (raised (int_of_float f)) (\<lambda>t. Inr (Progress (Some t) cur))))"
proof (cases "32 \<in> set (drop 13 s)")
  case True
  from split_on_sep_length [OF True] obtain a b r where "split_on 32 (drop 13 s) = a # b # r"
    by (cases "split_on 32 (drop 13 s)"; cases "tl (split_on 32 (drop 13 s))") auto
  with assms True show ?thesis
    by (simp add: handle_line_def total_frames_split)
next
  case False
  with assms show ?thesis
    by (simp add: handle_line_def total_frames_split split_on_no_sep)
qed

lemma handle_line_shape:
  assumes "decode_utf8 raw = Some l"
  shows "(case shape_of rt raw of
            Sets_total t \<Rightarrow> handle_line rt tot cur (strip l) = Inr (Progress (Some t) cur)
          | Sets_current c \<Rightarrow> handle_line rt tot cur (strip l) = Inr (Progress tot (Some c))
          | Unrecognised \<Rightarrow> handle_line rt tot cur (strip l) = Inr (Progress tot cur)
          | Stops \<Rightarrow> (\<forall>t c. handle_line rt tot cur (strip l) \<noteq> Inr (Progress t c)))"
proof (cases "startswith (strip l) (str ''total_frames '')")
  case True
  then show ?thesis
    using assms
    by (auto simp: shape_of_def handle_total and_then_def raised_def Let_def
        split: sum.splits)
next
  case False
  then show ?thesis
    using assms
    by (auto simp: shape_of_def handle_line_def last_split_on and_then_def raised_def Let_def
        split: sum.splits list.splits)
qed

lemma shape_undecodable: "decode_utf8 raw = None \<Longrightarrow> shape_of rt raw = Stops"
  by (simp add: shape_of_def)

lemma rendering_expected:
  "filter is_rendering (fst (read_stdout rt w A H tot cur ls))
     = expected tot cur (processed rt ls)"
proof (induction ls arbitrary: tot cur)
  case Nil
  show ?case by (simp add: read_stdout_Nil processed_def)
next
  case (Cons raw rest)
  show ?case
  proof (cases "decode_utf8 raw")
    case None
    then show ?thesis
      by (simp add: read_stdout_Cons decode_def processed_def shape_undecodable)
  next
    case (Some l)
    from handle_line_shape [OF Some, of rt tot cur] Cons.IH show ?thesis
      by (cases "shape_of rt raw"; cases "handle_line rt tot cur (strip l)")
         (auto simp: read_stdout_Cons decode_def Some processed_def rendering_upload
           progress_update_def split: line_action.splits option.splits)
  qed
qed


lemma upt_from_1: "[Suc 0..<Suc (Suc n)] = Suc 0 # map Suc [Suc 0..<Suc n]"
proof -
  have "[Suc 0..<Suc (Suc n)] = Suc 0 # [Suc (Suc 0)..<Suc (Suc n)]"
    by (simp add: upt_conv_Cons)
  also have "[Suc (Suc 0)..<Suc (Suc n)] = map Suc [Suc 0..<Suc n]"
    by (simp only: map_Suc_upt)
  finally show ?thesis .
qed

lemma expected_latest:
  "expected tot cur shs =
     concat (map (\<lambda>k.
        case (foldl (\<lambda>acc sh. case sh of Sets_total t \<Rightarrow> Some t | _ \<Rightarrow> acc) tot (take k shs),
              foldl (\<lambda>acc sh. case sh of Sets_current c \<Rightarrow> Some c | _ \<Rightarrow> acc) cur (take k shs)) of
          (Some t, Some c) \<Rightarrow>
            if t \<noteq> 0 \<and> c \<noteq> 0 then [Update_state ''RENDERING'' (Some (c, t))] else []
        | _ \<Rightarrow> []) [1..<Suc (length shs)])"
proof (induction shs arbitrary: tot cur)
  case Nil
  show ?case by simp
next
  case (Cons sh rest)
  show ?case
    by (simp add: upt_from_1 Cons.IH Let_def comp_def del: upt_Suc cong: option.case_cong)
qed

text \<open>
  Claim C4, as amended. When the renderer has been started, the \<open>RENDERING\<close> updates
  of the run are these, in this order: for each \<open>k\<close> from 1 to the number of lines that
  the loop completes, one update carrying the current frame and the total most recently
  parsed among the first \<open>k\<close> lines, when both of them have been parsed and neither is
  \<open>0\<close>, and no update otherwise. So every update carries the most recently parsed pair,
  none is emitted before both values have been seen, and none while either is \<open>0\<close>.
  When the renderer has not been started, there is no such update.
\<close>

theorem progress_updates:
  "(start_renderer rt environ w uri = (evs, Inr (H, A, process))
      \<and> shs = processed rt (stdout_lines (proc process))
    \<longrightarrow> filter is_rendering (fst (render rt environ w uri)) =
          concat (map (\<lambda>k.
             case (latest_total (take k shs), latest_current (take k shs)) of
               (Some t, Some c) \<Rightarrow>
                 if t \<noteq> 0 \<and> c \<noteq> 0 then [Update_state ''RENDERING'' (Some (c, t))] else []
             | _ \<Rightarrow> []) [1..<Suc (length shs)]))
   \<and> (snd (start_renderer rt environ w uri) = Inl e
    \<longrightarrow> filter is_rendering (fst (render rt environ w uri)) = [])"
proof (intro conjI impI)
  assume a: "start_renderer rt environ w uri = (evs, Inr (H, A, process))
      \<and> shs = processed rt (stdout_lines (proc process))"
  then have "filter is_rendering evs = []"
    using rendering_start [of rt environ w uri] by simp
  with a show "filter is_rendering (fst (render rt environ w uri)) =
          concat (map (\<lambda>k.
             case (latest_total (take k shs), latest_current (take k shs)) of
               (Some t, Some c) \<Rightarrow>
                 if t \<noteq> 0 \<and> c \<noteq> 0 then [Update_state ''RENDERING'' (Some (c, t))] else []
             | _ \<Rightarrow> []) [1..<Suc (length shs)])"
    by (simp add: render_unfold [of rt environ w uri evs H A process] rendering_expected
        expected_latest latest_total_def latest_current_def del: upt_Suc)
next
  assume "snd (start_renderer rt environ w uri) = Inl e"
  then show "filter is_rendering (fst (render rt environ w uri)) = []"
    by (simp add: render_not_started rendering_start)
qed

lemma double_10: "double_of_rat 10 = Finite 10"
  by code_simp

lemmas line_simps =
  decode_def decode_utf8_def utf8_seq_def strip_def isspace_def handle_line_def
  startswith_def str_def and_then_def raised_def example_rt_def conv_simps double_10
  progress_update_def output_lines_def

lemma read_zero:
  "read_stdout example_rt w A H None None (output_lines [''total_frames 10'', ''Append frame 0''])
     = ([], Inr Exhausted)"
  by (simp add: read_stdout_Cons read_stdout_Nil line_simps)

lemma processed_rendering_output:
  "processed example_rt (output_lines rendering_output)
     = [Sets_total 10, Sets_current 1, Unrecognised, Sets_current 2]"
  by (simp add: processed_def shape_of_def line_simps rendering_output_def)

lemma processed_zero:
  "processed example_rt (output_lines [''total_frames 10'', ''Append frame 0''])
     = [Sets_total 10, Sets_current 0]"
  by (simp add: processed_def shape_of_def line_simps)

text \<open>
  A run with an unrecognised line between two frames: the pair is published again after
  it, and nothing is published for the lines after the output file. A run whose file is
  rejected publishes nothing.
\<close>

theorem progress_updates_witness:
  "filter is_rendering (fst (render example_rt task_env
      (example_world (motion_file ''3'' ''0.05'' three_rows)
         \<lparr>stdout_lines = output_lines rendering_output, stderr_content = [],
            exit_status = 0\<rparr>) (str ''/files/1'')))
   = [Update_state ''RENDERING'' (Some (1, 10)), Update_state ''RENDERING'' (Some (1, 10)),
      Update_state ''RENDERING'' (Some (2, 10))]
   \<and> filter is_rendering (fst (render example_rt task_env
      (example_world (motion_file ''3'' ''0.05'' two_rows)
         \<lparr>stdout_lines = output_lines rendering_output, stderr_content = [],
            exit_status = 0\<rparr>) (str ''/files/1''))) = []"
proof -
  let ?c = "\<lparr>stdout_lines = output_lines rendering_output, stderr_content = [],
            exit_status = 0\<rparr>"
  have s2: "snd (start_renderer example_rt task_env
      (example_world (motion_file ''3'' ''0.05'' two_rows) ?c) (str ''/files/1''))
      = Inl (TaskFailure (rows_mismatch (Some 2) 3))"
    by (simp add: start_renderer_unfold [OF example_fetch] task_env_rejects)
  from progress_updates [where rt = example_rt and environ = task_env
      and w = "example_world (motion_file ''3'' ''0.05'' three_rows) ?c"
      and uri = "str ''/files/1''"
      and shs = "[Sets_total 10, Sets_current 1, Unrecognised, Sets_current 2]",
      THEN conjunct1, rule_format, OF conjI, OF example_start [OF task_env_accepts]]
    progress_updates [where rt = example_rt and environ = task_env
      and w = "example_world (motion_file ''3'' ''0.05'' two_rows) ?c"
      and uri = "str ''/files/1''", THEN conjunct2, rule_format, OF s2]
  show ?thesis
    by (simp add: processed_rendering_output latest_total_def latest_current_def upt_rec)
qed

text \<open>
  After \<open>total_frames 10\<close> and \<open>Append frame 0\<close> both values have been parsed, and
  no update is emitted: the frame \<open>0\<close> is false in the test.
\<close>

theorem progress_updates_counterexample:
  "processed example_rt (output_lines [''total_frames 10'', ''Append frame 0''])
     = [Sets_total 10, Sets_current 0]
   \<and> latest_total [Sets_total 10, Sets_current 0] = Some 10
   \<and> latest_current [Sets_total 10, Sets_current 0] = Some 0
   \<and> filter is_rendering (fst (render example_rt task_env
      (example_world (motion_file ''3'' ''0.05'' three_rows)
         \<lparr>stdout_lines = output_lines [''total_frames 10'', ''Append frame 0''],
            stderr_content = [], exit_status = 0\<rparr>) (str ''/files/1''))) = []"
  by (simp add: processed_zero latest_total_def latest_current_def
      render_unfold [OF example_start [OF task_env_accepts]] read_zero)

lemma startswith_Cons:
  "startswith s (c # p) \<longleftrightarrow> (\<exists>t. s = c # t \<and> startswith t p)"
  by (cases s) (auto simp: startswith_def)

lemma output_file_not_other:
  "startswith line (str ''output_file'') \<Longrightarrow>
   \<not> startswith line (str ''total_frames '') \<and> \<not> startswith line (str ''Append frame '')"
  by (auto simp: str_def startswith_Cons)

lemma handle_output_file:
  "startswith line (str ''output_file'') \<Longrightarrow> split_on 32 line = [kw, file_name] \<Longrightarrow>
   handle_line rt tot cur line = Inr (Output_file file_name)"
  by (simp add: handle_line_def output_file_not_other)

lemma handle_payload_error:
  "payload_error rt line = Some e \<Longrightarrow> handle_line rt tot cur line = Inl (Raised e)"
  by (auto simp: payload_error_def handle_line_def Let_def and_then_def raised_def
      split: if_splits sum.splits list.splits)

text \<open>
  Claim C9. At the first line of the output that is recognised as an \<open>output_file\<close>
  line (the lines before it having been handled without a return or an exception), the
  loop stops, whatever lines follow: the task opens the named file, posts it to
  \<open>/upload_video\<close> as the part \<open>file\<close> under the base name of the path, with the
  header of the download, and returns the body of the response.
\<close>

theorem output_file_uploads:
  assumes "start_renderer rt environ w uri = (evs, Inr (H, A, process))"
    and "stdout_lines (proc process) = pre @ raw # post"
    and "snd (read_stdout rt w A H None None pre) = Inr Exhausted"
    and "decode_utf8 raw = Some line"
    and "startswith (strip line) (str ''output_file'')"
    and "split_on 32 (strip line) = [kw, file_name]"
    and "open_rb w file_name = Inr content"
    and "http_post w (A @ str ''/upload_video'') (''file'', basename file_name, content) H
           = Inr body"
  shows "render rt environ w uri =
           (evs @ fst (read_stdout rt w A H None None pre)
              @ [Open_file file_name,
                 Http_post (A @ str ''/upload_video'') ''file'' (basename file_name) H],
            Inr (Some body))
         \<and> Http_get (A @ uri) H \<in> set evs"
proof -
  from read_stdout_append [OF assms(3)] obtain tot' cur' where
    "read_stdout rt w A H None None (pre @ raw # post)
      = (fst (read_stdout rt w A H None None pre) @ fst (read_stdout rt w A H tot' cur' (raw # post)),
         snd (read_stdout rt w A H tot' cur' (raw # post)))" by blast
  moreover have "read_stdout rt w A H tot' cur' (raw # post)
      = ([Open_file file_name,
          Http_post (A @ str ''/upload_video'') ''file'' (basename file_name) H],
         Inr (Return body))"
    using assms(4,7,8)
    by (simp add: read_stdout_Cons decode_def handle_output_file [OF assms(5,6)]
        upload_unfold raised_def)
  ultimately have r: "render rt environ w uri =
           (evs @ fst (read_stdout rt w A H None None pre)
              @ [Open_file file_name,
                 Http_post (A @ str ''/upload_video'') ''file'' (basename file_name) H],
            Inr (Some body))"
    by (simp add: render_unfold [OF assms(1)] assms(2))
  have "Http_get (A @ uri) H \<in> set evs"
  proof (cases "snd (fetch environ w uri)")
    case (Inl e)
    with assms(1) show ?thesis by (simp add: start_renderer_fetch_fails)
  next
    case (Inr x)
    obtain H' A' f where "x = (H', A', f)" by (cases x)
    with Inr have fe: "fetch environ w uri = (fst (fetch environ w uri), Inr (H', A', f))"
      by (simp add: prod_eq_iff)
    from start_renderer_unfold [OF fe, of rt] assms(1) fe show ?thesis
      by (auto simp: fetch_unfold split: sum.splits option.splits)
  qed
  with r show ?thesis by simp
qed

text \<open>
  Claim C10. At the first line of the output that has a recognised prefix and a
  malformed payload, the exception of the malformation leaves the task: the line is not
  skipped, no later line is handled, and the exception is not a \<open>TaskFailure\<close>.
\<close>

theorem malformed_line_raises:
  assumes "start_renderer rt environ w uri = (evs, Inr (H, A, process))"
    and "stdout_lines (proc process) = pre @ raw # post"
    and "snd (read_stdout rt w A H None None pre) = Inr Exhausted"
    and "decode_utf8 raw = Some line"
    and "payload_error rt (strip line) = Some e"
  shows "render rt environ w uri
           = (evs @ fst (read_stdout rt w A H None None pre), Inl (Raised e))"
proof -
  from read_stdout_append [OF assms(3)] obtain tot' cur' where
    "read_stdout rt w A H None None (pre @ raw # post)
      = (fst (read_stdout rt w A H None None pre) @ fst (read_stdout rt w A H tot' cur' (raw # post)),
         snd (read_stdout rt w A H tot' cur' (raw # post)))" by blast
  moreover have "read_stdout rt w A H tot' cur' (raw # post) = ([], Inl (Raised e))"
    using assms(4)
    by (simp add: read_stdout_Cons decode_def handle_payload_error [OF assms(5)])
  ultimately show ?thesis
    by (simp add: render_unfold [OF assms(1)] assms(2))
qed


text \<open>Scenario 4, shortened to two frames, with a line after the output file.\<close>

theorem output_file_uploads_witness:
  "render example_rt task_env
      (example_world (motion_file ''3'' ''0.05'' three_rows)
         \<lparr>stdout_lines = output_lines rendering_output, stderr_content = [],
            exit_status = 0\<rparr>) (str ''/files/1'')
   = ([Update_state ''PROCESSING'' None,
       Http_get (str ''http://api/files/1'') [(''Authorization'', str ''Bearer secret'')],
       Temp_file (str ''/tmp/tmp0a1b2c3d.bhv'') (motion_file ''3'' ''0.05'' three_rows),
       Spawn (blender_args (str ''/tmp/tmp0a1b2c3d.bhv'')),
       Update_state ''RENDERING'' (Some (1, 10)), Update_state ''RENDERING'' (Some (1, 10)),
       Update_state ''RENDERING'' (Some (2, 10)),
       Open_file (str ''/tmp/out.mp4''),
       Http_post (str ''http://api/upload_video'') ''file'' (str ''out.mp4'')
         [(''Authorization'', str ''Bearer secret'')]],
      Inr (Some (str ''ok'')))"
proof -
  let ?c = "\<lparr>stdout_lines = output_lines rendering_output, stderr_content = [],
            exit_status = 0\<rparr>"
  let ?w = "example_world (motion_file ''3'' ''0.05'' three_rows) ?c"
  let ?H = "[(''Authorization'', str ''Bearer secret'')]"
  let ?pre = "output_lines [''total_frames 10'', ''Append frame 1'', ''Fra:1 Mem:30.50M'',
                ''Append frame 2'']"
  let ?raw = "''output_file /tmp/out.mp4'' @ [CHR 0x0A]"
  have lines: "stdout_lines (proc \<lparr>proc = ?c, returncode = None\<rparr>)
      = ?pre @ ?raw # output_lines [''Append frame 3'']"
    by (simp add: output_lines_def rendering_output_def)
  have pre: "read_stdout example_rt ?w (str ''http://api'') ?H None None ?pre
      = ([Update_state ''RENDERING'' (Some (1, 10)), Update_state ''RENDERING'' (Some (1, 10)),
          Update_state ''RENDERING'' (Some (2, 10))], Inr Exhausted)"
    by (simp add: read_stdout_Cons read_stdout_Nil line_simps)
  have dec: "decode_utf8 ?raw = Some (str ?raw)"
    by (rule decode_utf8_ascii) simp
  have sw: "startswith (strip (str ?raw)) (str ''output_file'')"
    by (simp add: startswith_def strip_def isspace_def str_def)
  have sp: "split_on 32 (strip (str ?raw)) = [str ''output_file'', str ''/tmp/out.mp4'']"
    by (simp add: strip_def isspace_def str_def)
  have bn: "basename (str ''/tmp/out.mp4'') = str ''out.mp4''"
    by (simp add: basename_def str_def)
  from output_file_uploads [OF example_start [OF task_env_accepts] lines _ dec sw sp]
  show ?thesis
    by (simp add: pre example_world_fields bn) (simp add: str_def)
qed

text \<open>An output file whose path has a space in it.\<close>

theorem malformed_line_raises_witness:
  "render example_rt task_env
      (example_world (motion_file ''3'' ''0.05'' three_rows)
         \<lparr>stdout_lines = output_lines [''total_frames 10'', ''output_file /tmp/my video.mp4'',
              ''Append frame 1''],
            stderr_content = [], exit_status = 0\<rparr>) (str ''/files/1'')
   = ([Update_state ''PROCESSING'' None,
       Http_get (str ''http://api/files/1'') [(''Authorization'', str ''Bearer secret'')],
       Temp_file (str ''/tmp/tmp0a1b2c3d.bhv'') (motion_file ''3'' ''0.05'' three_rows),
       Spawn (blender_args (str ''/tmp/tmp0a1b2c3d.bhv''))],
      Inl (Raised ''ValueError''))"
proof -
  let ?c = "\<lparr>stdout_lines = output_lines [''total_frames 10'',
              ''output_file /tmp/my video.mp4'', ''Append frame 1''],
            stderr_content = [], exit_status = 0\<rparr>"
  let ?w = "example_world (motion_file ''3'' ''0.05'' three_rows) ?c"
  let ?H = "[(''Authorization'', str ''Bearer secret'')]"
  let ?pre = "output_lines [''total_frames 10'']"
  let ?raw = "''output_file /tmp/my video.mp4'' @ [CHR 0x0A]"
  have lines: "stdout_lines (proc \<lparr>proc = ?c, returncode = None\<rparr>)
      = ?pre @ ?raw # output_lines [''Append frame 1'']"
    by (simp add: output_lines_def)
  have pre: "read_stdout example_rt ?w (str ''http://api'') ?H None None ?pre
      = ([], Inr Exhausted)"
    by (simp add: read_stdout_Cons read_stdout_Nil line_simps)
  have dec: "decode_utf8 ?raw = Some (str ?raw)"
    by (rule decode_utf8_ascii) simp
  have pe: "payload_error example_rt (strip (str ?raw)) = Some ''ValueError''"
    by (simp add: payload_error_def startswith_def strip_def isspace_def str_def)
  from malformed_line_raises [OF example_start [OF task_env_accepts] lines _ dec pe]
  show ?thesis
    by (simp add: pre) (simp add: str_def)
qed

end
